theory Spec2Isabelle
  imports Main
begin

section \<open>The client session of a notebook (clientSession.ts)\<close>

text \<open>
  The class \<open>ClientSession\<close> is embedded as a record of its fields together with the
  state of the collaborators it talks to. Every method is a function from the state to a
  result and the state it leaves: the result is \<open>Inl err\<close> when the method's promise
  rejects with \<open>err\<close> (or the method throws), and \<open>Inr v\<close> when it fulfils with \<open>v\<close>.
  An \<open>await\<close> runs the awaited operation to its outcome and goes on from there; an outcome
  of a collaborator is a datum of the collaborator's record, so that a theorem over all
  records is a theorem over all outcomes. A promise that never settles has no outcome in
  this model.
\<close>

subsection \<open>Values thrown and caught\<close>

text \<open>
  What a \<open>catch\<close> can receive: an \<open>Error\<close> with its message, an error that carries an
  HTTP response (\<open>err.response.status\<close>) and a \<open>TypeError\<close> raised by reading a
  property of \<open>undefined\<close>.
\<close>

datatype js_error =
    JsError string
  | HttpError nat string
  | TypeError string

fun response_status :: "js_error \<Rightarrow> nat option" where
  "response_status (HttpError n m) = Some n"
| "response_status (JsError m) = None"
| "response_status (TypeError m) = None"

fun error_message :: "js_error \<Rightarrow> string" where
  "error_message (JsError m) = m"
| "error_message (HttpError n m) = m"
| "error_message (TypeError m) = m"

text \<open>
  Modelled from the spec: \<open>notebookUtils.getErrorMessage\<close> is imported by
  clientSession.ts and is not among the sources. The spec says that an exception of the
  start sequence is "caught and stored as errorMessage"; the stored text is the message
  the exception carries.
\<close>

definition getErrorMessage :: "js_error \<Rightarrow> string" where
  "getErrorMessage err = error_message err"

subsection \<open>Strings\<close>

text \<open>
  Kernel names are taken to be ASCII: \<open>toLowerCase\<close> maps \<open>A\<close> to \<open>Z\<close> onto \<open>a\<close> to
  \<open>z\<close> and leaves every other character as it is. \<open>indexOf\<close> is the position of the first
  occurrence, or \<open>-1\<close>.
\<close>

definition toLowerChar :: "char \<Rightarrow> char" where
  "toLowerChar c =
     (case map_of (zip ''ABCDEFGHIJKLMNOPQRSTUVWXYZ'' ''abcdefghijklmnopqrstuvwxyz'') c of
        Some l \<Rightarrow> l
      | None \<Rightarrow> c)"

definition toLowerCase :: "string \<Rightarrow> string" where
  "toLowerCase s = map toLowerChar s"

fun indexOf :: "string \<Rightarrow> string \<Rightarrow> int" where
  "indexOf [] sub = (if sub = [] then 0 else - 1)"
| "indexOf (c # cs) sub =
     (if take (length sub) (c # cs) = sub then 0
      else (let i = indexOf cs sub in if i < 0 then - 1 else i + 1))"

text \<open>
  Modelled from the spec: \<open>nls.localize\<close> (vs/nls) is imported by clientSession.ts and is
  not among the sources. By the spec the error message of a server that does not start
  contains "did not start": \<open>localize\<close> gives the message it is called with, in the
  default language.
\<close>

definition localize_ServerNotStarted :: string where
  "localize_ServerNotStarted = ''Server did not start for unknown reason''"

text \<open>
  Modelled from the spec: \<open>nls.localize\<close> (vs/nls) is not among the sources. By the spec
  a warning is surfaced when a kernel is not found; its text is the message \<open>localize\<close>
  is called with, in which the kernel name takes the place of \<open>{0}\<close>, and \<open>{0}\<close> stays
  where the kernel name is undefined.
\<close>

fun localize_sparkKernelRequiresConnection :: "string option \<Rightarrow> string" where
  "localize_sparkKernelRequiresConnection None =
     ''Kernel {0} was not found. The default kernel will be used instead.''"
| "localize_sparkKernelRequiresConnection (Some kernelName) =
     ''Kernel '' @ kernelName @ '' was not found. The default kernel will be used instead.''"

subsection \<open>The collaborators\<close>

text \<open>
  \<open>nb.IKernel\<close>: \<open>kernel_ready\<close> is the outcome of awaiting \<open>kernel.ready\<close> (\<open>None\<close>
  when it fulfils, \<open>Some err\<close> when it rejects with \<open>err\<close>), \<open>kernel_isReady\<close> the flag
  read after that, and \<open>requestExecute_done\<close> the outcome of awaiting the \<open>done\<close> promise
  of \<open>requestExecute({code}, silent)\<close>.
\<close>

record kernel =
  kernel_name :: string
  kernel_isReady :: bool
  kernel_ready :: "js_error option"
  requestExecute_done :: "string \<Rightarrow> bool \<Rightarrow> js_error option"

text \<open>
  \<open>nb.ISession\<close>: \<open>changeKernel_response\<close> is what \<open>session.changeKernel(options)\<close>
  settles with for a kernel name; \<open>defaultKernelLoaded\<close> is undefined until the client
  session writes it.
\<close>

record session =
  session_id :: string
  session_status :: string
  session_kernel :: "kernel option"
  defaultKernelLoaded :: "bool option"
  changeKernel_response :: "string \<Rightarrow> js_error + kernel"

text \<open>
  The server manager: \<open>isStarted\<close> is its flag now, \<open>startServer_isStarted\<close> the flag
  once \<open>startServer()\<close> has settled, and the two outcomes are those of \<open>startServer()\<close>
  and \<open>stopServer()\<close>.
\<close>

record server_manager =
  isStarted :: bool
  startServer_outcome :: "js_error option"
  startServer_isStarted :: bool
  stopServer_outcome :: "js_error option"

text \<open>
  The session manager: \<open>startNew_response n path kernelName\<close> is what the call
  \<open>startNew({path, kernelName})\<close> settles with when \<open>n\<close> calls of \<open>startNew\<close> came
  before it.
\<close>

record session_manager =
  sessionManager_isReady :: bool
  sessionManager_ready :: "js_error option"
  startNew_response :: "nat \<Rightarrow> string \<Rightarrow> string option \<Rightarrow> js_error + session"

record notebook_manager =
  serverManager :: "server_manager option"
  sessionManager :: session_manager

record notebook_connection =
  host :: string
  knoxport :: string
  user :: string
  password :: string
  connectionProfile_id :: string

record kernel_preference =
  preference_name :: "string option"
  shouldStart :: bool

text \<open>
  A kernel-config action is the closure \<open>initialize\<close> registers, which calls
  \<open>runTasksBeforeSessionStart\<close>, or any other callback of type
  \<open>(kernelName) => Promise<any>\<close>: such a callback is known by a number and by the
  outcome of its promise for a kernel name.
\<close>

datatype config_action =
    DefaultAction
  | Callback nat "string option \<Rightarrow> js_error option"

text \<open>
  What the client session does to its collaborators, in the order it does it. The two
  \<open>Action_\<close> events mark the call of a kernel-config action and the moment the promise
  it returned settles; the action is named by \<open>None\<close> when it is the registered closure
  and by its number when it is a callback.
\<close>

datatype event =
    ServerManager_startServer
  | ServerManager_stopServer
  | SessionManager_ready
  | SessionManager_startNew string "string option"
  | SessionManager_shutdown string
  | Session_changeKernel string
  | Kernel_requestExecute string bool
  | Notification_warn string
  | StatusChanged_fire
  | KernelChanged_fire "string option" "string option"
  | Action_invoked "nat option" "string option"
  | Action_settled "nat option"

subsection \<open>The state of a client session\<close>

text \<open>
  Modelled from the spec: the class \<open>Deferred\<close> (sql/base/common/promise) is not among the
  sources. By the spec a gate is created unresolved, \<open>resolve()\<close> resolves it and a
  resolved gate stays resolved. Gates are objects: \<open>new Deferred\<close> takes the next free
  number, \<open>deferreds\<close> counts the calls of \<open>resolve()\<close> on each gate, and the fields
  \<open>f_ready\<close> and \<open>f_kernelChangeCompleted\<close> hold the numbers of the gates they refer to.

  \<open>livyServer h p\<close> stands for \<open>URI.parse(sparkUtils.getLivyUrl(h, p)).toString()\<close>, two
  imports that are not among the sources. \<open>f_serverLoadFinished\<close> is \<open>None\<close> before
  \<open>initialize\<close> and then holds the outcome of the promise \<open>startServer()\<close> returned.
\<close>

record client_session =
  f_path :: string
  f_isReady :: bool
  f_ready :: nat
  f_kernelChangeCompleted :: nat
  f_kernelPreference :: "kernel_preference option"
  f_errorMessage :: "string option"
  f_serverLoadFinished :: "js_error option option"
  f_session :: "session option"
  isServerStarted :: bool
  notebookManager :: notebook_manager
  f_connection :: "notebook_connection option"
  f_kernelConfigActions :: "config_action list"
  deferreds :: "nat \<Rightarrow> nat"
  nextDeferred :: nat
  startNewCalls :: nat
  livyServer :: "string \<Rightarrow> string \<Rightarrow> string"
  trace :: "event list"

type_synonym 'a promise = "client_session \<Rightarrow> (js_error + 'a) \<times> client_session"

subsection \<open>Sequencing, throwing and catching\<close>

definition resolved :: "'a \<Rightarrow> 'a promise" where
  "resolved x s = (Inr x, s)"

definition throw :: "js_error \<Rightarrow> 'a promise" where
  "throw err s = (Inl err, s)"

definition andThen :: "'a promise \<Rightarrow> ('a \<Rightarrow> 'b promise) \<Rightarrow> 'b promise" where
  "andThen m f s = (case m s of (Inl err, s') \<Rightarrow> (Inl err, s') | (Inr x, s') \<Rightarrow> f x s')"

definition tryCatch :: "'a promise \<Rightarrow> (js_error \<Rightarrow> 'a promise) \<Rightarrow> 'a promise" where
  "tryCatch m h s = (case m s of (Inl err, s') \<Rightarrow> h err s' | (Inr x, s') \<Rightarrow> (Inr x, s'))"

definition modify :: "(client_session \<Rightarrow> client_session) \<Rightarrow> unit promise" where
  "modify f s = (Inr (), f s)"

definition emit :: "event \<Rightarrow> unit promise" where
  "emit e s = (Inr (), s\<lparr>trace := trace s @ [e]\<rparr>)"

text \<open>The event \<open>e\<close> is recorded when the promise settles, whatever its outcome.\<close>

definition whenSettled :: "'a promise \<Rightarrow> event \<Rightarrow> 'a promise" where
  "whenSettled m e s = (case m s of (r, s') \<Rightarrow> (r, s'\<lparr>trace := trace s' @ [e]\<rparr>))"

text \<open>Awaiting a promise whose outcome is known.\<close>

fun await :: "js_error option \<Rightarrow> unit promise" where
  "await None = resolved ()"
| "await (Some err) = throw err"

subsection \<open>Gates\<close>

definition newDeferred :: "client_session \<Rightarrow> nat \<times> client_session" where
  "newDeferred s =
     (nextDeferred s,
      s\<lparr>deferreds := (deferreds s)(nextDeferred s := 0), nextDeferred := Suc (nextDeferred s)\<rparr>)"

definition resolve :: "nat \<Rightarrow> unit promise" where
  "resolve g s = (Inr (), s\<lparr>deferreds := (deferreds s)(g := Suc (deferreds s g))\<rparr>)"

definition isResolved :: "nat \<Rightarrow> client_session \<Rightarrow> bool" where
  "isResolved g s = (0 < deferreds s g)"

subsection \<open>Construction and the accessors\<close>

record client_session_options =
  options_path :: string
  options_notebookManager :: notebook_manager

text \<open>
  The constructor: not ready, two new gates, no session, no connection, no action. Its
  first argument is the function \<open>livyServer\<close> of the state.
\<close>

definition ClientSession :: "(string \<Rightarrow> string \<Rightarrow> string) \<Rightarrow> client_session_options \<Rightarrow> client_session" where
  "ClientSession livy options =
     \<lparr> f_path = options_path options,
       f_isReady = False,
       f_ready = 0,
       f_kernelChangeCompleted = 1,
       f_kernelPreference = None,
       f_errorMessage = None,
       f_serverLoadFinished = None,
       f_session = None,
       isServerStarted = False,
       notebookManager = options_notebookManager options,
       f_connection = None,
       f_kernelConfigActions = [],
       deferreds = (\<lambda>g. 0),
       nextDeferred = 2,
       startNewCalls = 0,
       livyServer = livy,
       trace = [] \<rparr>"

definition set_kernelPreference :: "kernel_preference option \<Rightarrow> client_session \<Rightarrow> client_session" where
  "set_kernelPreference v s = s\<lparr>f_kernelPreference := v\<rparr>"

definition kernel :: "client_session \<Rightarrow> kernel option" where
  "kernel s = (case f_session s of Some sess \<Rightarrow> session_kernel sess | None \<Rightarrow> None)"

definition isReady :: "client_session \<Rightarrow> bool" where
  "isReady s = f_isReady s"

definition errorMessage :: "client_session \<Rightarrow> string option" where
  "errorMessage s = f_errorMessage s"

text \<open>\<open>!!this._errorMessage\<close>: a message that is there and is not the empty string.\<close>

definition isInErrorState :: "client_session \<Rightarrow> bool" where
  "isInErrorState s = (case f_errorMessage s of None \<Rightarrow> False | Some m \<Rightarrow> m \<noteq> [])"

definition status :: "client_session \<Rightarrow> string" where
  "status s =
     (if \<not> isReady s then ''starting''
      else (case f_session s of Some sess \<Rightarrow> session_status sess | None \<Rightarrow> ''dead''))"

subsection \<open>Starting the server\<close>

definition startServer :: "unit promise" where
  "startServer s =
     (case serverManager (notebookManager s) of
        None \<Rightarrow> modify (\<lambda>s. s\<lparr>isServerStarted := True\<rparr>) s
      | Some sm \<Rightarrow>
          if \<not> isStarted sm then
            andThen (emit ServerManager_startServer) (\<lambda>_.
            andThen (modify (\<lambda>s. s\<lparr>notebookManager := (notebookManager s)
                       \<lparr>serverManager := Some (sm\<lparr>isStarted := startServer_isStarted sm\<rparr>)\<rparr>\<rparr>)) (\<lambda>_.
            andThen (await (startServer_outcome sm)) (\<lambda>_.
              if \<not> startServer_isStarted sm
              then throw (JsError localize_ServerNotStarted)
              else modify (\<lambda>s. s\<lparr>isServerStarted := startServer_isStarted sm\<rparr>)))) s
          else modify (\<lambda>s. s\<lparr>isServerStarted := True\<rparr>) s)"

subsection \<open>The kernel-config actions\<close>

fun isSparkKernel :: "string option \<Rightarrow> bool" where
  "isSparkKernel None = False"
| "isSparkKernel (Some kernelName) =
     (kernelName \<noteq> [] \<and> indexOf (toLowerCase kernelName) ''spark'' > - 1)"

definition doNotCallChangeEndpointParams :: "notebook_connection \<Rightarrow> string \<Rightarrow> string" where
  "doNotCallChangeEndpointParams conn server =
     ''%_do_not_call_change_endpoint --username='' @ user conn @
     '' --password='' @ password conn @
     '' --server='' @ server @ '' --auth=Basic_Access''"

text \<open>
  \<open>this._session.kernel.requestExecute\<close> on a session that has no kernel is a
  \<open>TypeError\<close>, raised before any request is made.
\<close>

definition runTasksBeforeSessionStart :: "string option \<Rightarrow> unit promise" where
  "runTasksBeforeSessionStart kernelName s =
     (if f_session s \<noteq> None \<and> f_connection s \<noteq> None \<and> isSparkKernel kernelName then
        (let conn = the (f_connection s);
             server = livyServer s (host conn) (knoxport conn);
             code = doNotCallChangeEndpointParams conn server
         in (case session_kernel (the (f_session s)) of
               None \<Rightarrow> throw (TypeError ''requestExecute of undefined'') s
             | Some k \<Rightarrow>
                 andThen (emit (Kernel_requestExecute code True)) (\<lambda>_.
                   await (requestExecute_done k code True)) s))
      else resolved () s)"

fun action_number :: "config_action \<Rightarrow> nat option" where
  "action_number DefaultAction = None"
| "action_number (Callback n outcome) = Some n"

fun action_promise :: "config_action \<Rightarrow> string option \<Rightarrow> unit promise" where
  "action_promise DefaultAction kernelName = runTasksBeforeSessionStart kernelName"
| "action_promise (Callback n outcome) kernelName = await (outcome kernelName)"

text \<open>
  \<open>await startAction(kernelName)\<close>: the action is called, and the loop goes on (or the
  rejection is thrown) once its promise has settled.
\<close>

definition startAction :: "config_action \<Rightarrow> string option \<Rightarrow> unit promise" where
  "startAction a kernelName =
     andThen (emit (Action_invoked (action_number a) kernelName)) (\<lambda>_.
       whenSettled (action_promise a kernelName) (Action_settled (action_number a)))"

fun runActions :: "config_action list \<Rightarrow> string option \<Rightarrow> unit promise" where
  "runActions [] kernelName = resolved ()"
| "runActions (a # as) kernelName =
     andThen (startAction a kernelName) (\<lambda>_. runActions as kernelName)"

definition runKernelConfigActions :: "string option \<Rightarrow> unit promise" where
  "runKernelConfigActions kernelName s = runActions (f_kernelConfigActions s) kernelName s"

subsection \<open>Starting a session\<close>

definition sessionManager_startNew :: "string \<Rightarrow> string option \<Rightarrow> session promise" where
  "sessionManager_startNew path kernelName s =
     (startNew_response (sessionManager (notebookManager s)) (startNewCalls s) path kernelName,
      s\<lparr>startNewCalls := Suc (startNewCalls s),
        trace := trace s @ [SessionManager_startNew path kernelName]\<rparr>)"

text \<open>The three statements after the \<open>try\<close> of \<open>startSessionInstance\<close>.\<close>

definition sessionStarted :: "string option \<Rightarrow> session \<Rightarrow> unit promise" where
  "sessionStarted kernelName sess =
     andThen (modify (\<lambda>s. s\<lparr>f_session := Some sess\<rparr>)) (\<lambda>_.
     andThen (runKernelConfigActions kernelName) (\<lambda>_.
       emit StatusChanged_fire))"

definition startSessionInstance :: "string option \<Rightarrow> unit promise" where
  "startSessionInstance kernelName =
     andThen
       (tryCatch
          (andThen (\<lambda>s. sessionManager_startNew (f_path s) kernelName s) (\<lambda>sess.
             resolved (sess\<lparr>defaultKernelLoaded := Some True\<rparr>)))
          (\<lambda>err.
             if response_status err = Some 501 then
               andThen (emit (Notification_warn (localize_sparkKernelRequiresConnection kernelName))) (\<lambda>_.
               andThen (\<lambda>s. sessionManager_startNew (f_path s) None s) (\<lambda>sess.
                 resolved (sess\<lparr>defaultKernelLoaded := Some False\<rparr>)))
             else throw err))
       (sessionStarted kernelName)"

definition initializeSession :: "unit promise" where
  "initializeSession =
     andThen (\<lambda>s. await (case f_serverLoadFinished s of None \<Rightarrow> None | Some out \<Rightarrow> out) s) (\<lambda>_ s.
       if isServerStarted s then
         andThen
           (\<lambda>s. if \<not> sessionManager_isReady (sessionManager (notebookManager s))
                then andThen (emit SessionManager_ready) (\<lambda>_.
                       await (sessionManager_ready (sessionManager (notebookManager s)))) s
                else resolved () s)
           (\<lambda>_ s. case f_kernelPreference s of
                    None \<Rightarrow> resolved () s
                  | Some p \<Rightarrow>
                      if shouldStart p then startSessionInstance (preference_name p) s
                      else resolved () s) s
       else resolved () s)"

subsection \<open>initialize\<close>

text \<open>
  \<open>this._serverLoadFinished = this.startServer()\<close> keeps the promise, whatever its
  outcome; the \<open>await\<close> after it is where a rejection is thrown.
\<close>

definition startServerPromise :: "unit promise" where
  "startServerPromise s =
     (case startServer s of
        (Inl err, s') \<Rightarrow> (Inr (), s'\<lparr>f_serverLoadFinished := Some (Some err)\<rparr>)
      | (Inr u, s') \<Rightarrow> (Inr (), s'\<lparr>f_serverLoadFinished := Some None\<rparr>))"

definition initialize_body :: "notebook_connection option \<Rightarrow> unit promise" where
  "initialize_body connection =
     andThen (modify (\<lambda>s. s\<lparr>f_kernelConfigActions := f_kernelConfigActions s @ [DefaultAction]\<rparr>)) (\<lambda>_.
     andThen (modify (\<lambda>s. s\<lparr>f_connection := connection\<rparr>)) (\<lambda>_.
     andThen startServerPromise (\<lambda>_.
     andThen (\<lambda>s. await (case f_serverLoadFinished s of None \<Rightarrow> None | Some out \<Rightarrow> out) s) (\<lambda>_.
       initializeSession))))"

definition initialize :: "notebook_connection option \<Rightarrow> unit promise" where
  "initialize connection =
     andThen
       (tryCatch (initialize_body connection)
          (\<lambda>err. modify (\<lambda>s. s\<lparr>f_errorMessage := Some (getErrorMessage err)\<rparr>)))
       (\<lambda>_.
          andThen (modify (\<lambda>s. s\<lparr>f_isReady := True\<rparr>)) (\<lambda>_.
          andThen (\<lambda>s. resolve (f_ready s) s) (\<lambda>_ s.
            resolve (f_kernelChangeCompleted s) s)))"

subsection \<open>Changing the kernel\<close>

record kernel_spec =
  spec_name :: string
  spec_display_name :: string

text \<open>
  With a session, \<open>session.changeKernel(options)\<close> is awaited and the session then holds
  the kernel it returned. Without one, a session is started and the result is
  \<open>this.kernel\<close>, which is undefined when the new session has no kernel.
\<close>

definition doChangeKernel :: "kernel_spec \<Rightarrow> kernel option promise" where
  "doChangeKernel options s =
     (case f_session s of
        Some sess \<Rightarrow>
          andThen (emit (Session_changeKernel (spec_name options))) (\<lambda>_.
          andThen (\<lambda>s. (changeKernel_response sess (spec_name options), s)) (\<lambda>k.
          andThen (modify (\<lambda>s. s\<lparr>f_session := Some (sess\<lparr>session_kernel := Some k\<rparr>)\<rparr>)) (\<lambda>_.
          andThen (runKernelConfigActions (Some (kernel_name k))) (\<lambda>_.
            resolved (Some k))))) s
      | None \<Rightarrow>
          andThen (startSessionInstance (Some (spec_name options))) (\<lambda>_ s.
            resolved (kernel s) s) s)"

text \<open>
  \<open>kernel.ready\<close> of an undefined kernel throws inside the \<open>try\<close>, and so does
  \<open>kernel.isReady\<close> in the \<open>catch\<close>: the method rejects with that \<open>TypeError\<close>.
  \<open>newKernel = this._session ? kernel : this._session.kernel\<close> throws when there is no
  session. \<open>changeKernel_entry\<close> is the first two statements: a new gate, not ready.
\<close>

definition changeKernel_entry :: "client_session \<Rightarrow> client_session" where
  "changeKernel_entry s =
     (snd (newDeferred s))\<lparr>f_kernelChangeCompleted := fst (newDeferred s), f_isReady := False\<rparr>"

definition changeKernel :: "kernel_spec \<Rightarrow> kernel promise" where
  "changeKernel options =
     andThen (modify changeKernel_entry) (\<lambda>_.
     andThen (\<lambda>s. resolved (kernel s) s) (\<lambda>oldKernel.
     andThen (doChangeKernel options) (\<lambda>kernel_opt.
       case kernel_opt of
         None \<Rightarrow> throw (TypeError ''isReady of undefined'')
       | Some k \<Rightarrow>
           andThen
             (tryCatch (await (kernel_ready k))
                (\<lambda>error.
                   andThen (modify (\<lambda>s. s\<lparr>f_isReady := kernel_isReady k\<rparr>)) (\<lambda>_.
                   andThen (\<lambda>s. resolve (f_kernelChangeCompleted s) s) (\<lambda>_.
                     throw error))))
             (\<lambda>_.
                andThen (\<lambda>s. if f_session s \<noteq> None then resolved k s
                             else throw (TypeError ''kernel of undefined'') s) (\<lambda>newKernel.
                andThen (modify (\<lambda>s. s\<lparr>f_isReady := kernel_isReady k\<rparr>)) (\<lambda>_.
                andThen (\<lambda>s. resolve (f_kernelChangeCompleted s) s) (\<lambda>_.
                andThen (emit (KernelChanged_fire (map_option kernel_name oldKernel)
                                 (Some (kernel_name newKernel)))) (\<lambda>_.
                  resolved k))))))))"

subsection \<open>updateConnection and shutdown\<close>

definition updateConnection :: "notebook_connection \<Rightarrow> unit promise" where
  "updateConnection connection s =
     (if kernel s = None then resolved () s
      else
        andThen
          (modify (\<lambda>s. s\<lparr>f_connection :=
             (if connectionProfile_id connection \<noteq> ''-1'' then Some connection
              else f_connection s)\<rparr>))
          (\<lambda>_ s. case kernel s of
                   None \<Rightarrow> resolved () s
                 | Some k \<Rightarrow>
                     if kernel_name k \<noteq> [] then runKernelConfigActions (Some (kernel_name k)) s
                     else resolved () s) s)"

text \<open>\<open>sessionManager.shutdown(id)\<close> is called and not awaited.\<close>

definition shutdown :: "unit promise" where
  "shutdown =
     andThen
       (\<lambda>s. case f_session s of
               None \<Rightarrow> resolved () s
             | Some sess \<Rightarrow>
                 if session_id sess \<noteq> [] then emit (SessionManager_shutdown (session_id sess)) s
                 else resolved () s)
       (\<lambda>_ s. case serverManager (notebookManager s) of
                None \<Rightarrow> resolved () s
              | Some sm \<Rightarrow>
                  andThen (emit ServerManager_stopServer) (\<lambda>_.
                    await (stopServer_outcome sm)) s)"

subsection \<open>Callers and observations\<close>

text \<open>A caller that awaits one \<open>updateConnection\<close> after the other, keeping every outcome.\<close>

fun updateConnections ::
  "notebook_connection list \<Rightarrow> client_session \<Rightarrow> (js_error + unit) list \<times> client_session" where
  "updateConnections [] s = ([], s)"
| "updateConnections (c # cs) s =
     (case updateConnection c s of (r, s') \<Rightarrow>
        (case updateConnections cs s' of (rs, s'') \<Rightarrow> (r # rs, s'')))"

text \<open>The events a method added to the trace.\<close>

definition new_events :: "client_session \<Rightarrow> client_session \<Rightarrow> event list" where
  "new_events s s' = drop (length (trace s)) (trace s')"

fun is_action_event :: "event \<Rightarrow> bool" where
  "is_action_event (Action_invoked n kernelName) = True"
| "is_action_event (Action_settled n) = True"
| "is_action_event e = False"

fun is_request :: "event \<Rightarrow> bool" where
  "is_request (Kernel_requestExecute code silent) = True"
| "is_request e = False"

text \<open>The backend calls that start or switch a kernel.\<close>

fun is_start_or_switch :: "event \<Rightarrow> bool" where
  "is_start_or_switch (SessionManager_startNew path kernelName) = True"
| "is_start_or_switch (Session_changeKernel n) = True"
| "is_start_or_switch e = False"

text \<open>One action run alone: it is called, and its promise settles.\<close>

definition action_events :: "config_action \<Rightarrow> string option \<Rightarrow> event list" where
  "action_events a kernelName =
     [Action_invoked (action_number a) kernelName, Action_settled (action_number a)]"






text \<open>
  The states a client session can be in: it is constructed, its kernel preference is
  set, its methods are called one after the other, and the backend may change the
  session object it holds.
\<close>

inductive reachable :: "client_session \<Rightarrow> bool" where
  constructed: "reachable (ClientSession livy options)"
| preference: "reachable s \<Longrightarrow> reachable (set_kernelPreference p s)"
| initialized: "reachable s \<Longrightarrow> reachable (snd (initialize conn s))"
| kernelChanged: "reachable s \<Longrightarrow> reachable (snd (changeKernel spec s))"
| connectionUpdated: "reachable s \<Longrightarrow> reachable (snd (updateConnection c s))"
| shutDown: "reachable s \<Longrightarrow> reachable (snd (shutdown s))"
| backend: "reachable s \<Longrightarrow> f_session s = Some sess \<Longrightarrow> reachable (s\<lparr>f_session := Some sess'\<rparr>)"

text \<open>
  The fields only \<open>initialize\<close> and \<open>changeKernel\<close> write: the ready flag, the two gates,
  the store of gates and the error message.
\<close>

definition gates_kept :: "client_session \<Rightarrow> client_session \<Rightarrow> bool" where
  "gates_kept s s' =
     (f_isReady s' = f_isReady s \<and> f_ready s' = f_ready s \<and>
      f_kernelChangeCompleted s' = f_kernelChangeCompleted s \<and>
      deferreds s' = deferreds s \<and> nextDeferred s' = nextDeferred s \<and>
      f_errorMessage s' = f_errorMessage s)"

subsection \<open>Collaborators for the examples\<close>

definition example_livyServer :: "string \<Rightarrow> string \<Rightarrow> string" where
  "example_livyServer h p = ''https://'' @ h @ '':'' @ p @ ''/gateway/default/livy/v1/''"

definition example_kernel :: "string \<Rightarrow> bool \<Rightarrow> js_error option \<Rightarrow> kernel" where
  "example_kernel n r out =
     \<lparr> kernel_name = n, kernel_isReady = r, kernel_ready = out,
       requestExecute_done = (\<lambda>code silent. None) \<rparr>"

text \<open>
  A session on the kernel \<open>n\<close>; it changes to any kernel asked for, except that a kernel
  named \<open>broken\<close> never becomes ready.
\<close>

definition example_session :: "string \<Rightarrow> session" where
  "example_session n =
     \<lparr> session_id = ''1'', session_status = ''idle'',
       session_kernel = Some (example_kernel n True None), defaultKernelLoaded = None,
       changeKernel_response = (\<lambda>name.
         if name = ''broken'' then Inr (example_kernel name False (Some (JsError ''kernel died'')))
         else Inr (example_kernel name True None)) \<rparr>"

definition example_manager ::
  "bool \<Rightarrow> (nat \<Rightarrow> string \<Rightarrow> string option \<Rightarrow> js_error + session) \<Rightarrow> notebook_manager" where
  "example_manager started startNew =
     \<lparr> serverManager = Some \<lparr> isStarted = False, startServer_outcome = None,
                               startServer_isStarted = started, stopServer_outcome = None \<rparr>,
       sessionManager = \<lparr> sessionManager_isReady = True, sessionManager_ready = None,
                          startNew_response = startNew \<rparr> \<rparr>"

definition example_connection :: "string \<Rightarrow> notebook_connection" where
  "example_connection pid =
     \<lparr> host = ''h'', knoxport = ''8443'', user = ''u'', password = ''p'',
       connectionProfile_id = pid \<rparr>"

definition example_client :: "notebook_manager \<Rightarrow> kernel_preference option \<Rightarrow> client_session" where
  "example_client mgr pref =
     set_kernelPreference pref
       (ClientSession example_livyServer
          \<lparr> options_path = ''notebook.ipynb'', options_notebookManager = mgr \<rparr>)"

text \<open>A backend that starts the kernel asked for.\<close>

definition plain_startNew :: "nat \<Rightarrow> string \<Rightarrow> string option \<Rightarrow> js_error + session" where
  "plain_startNew n path kernelName =
     (case kernelName of
        None \<Rightarrow> Inr (example_session ''python3'')
      | Some k \<Rightarrow> Inr (example_session k))"

text \<open>A backend that knows no kernel by name and starts \<open>python3\<close> by default.\<close>

definition notFound_startNew :: "nat \<Rightarrow> string \<Rightarrow> string option \<Rightarrow> js_error + session" where
  "notFound_startNew n path kernelName =
     (case kernelName of
        None \<Rightarrow> Inr (example_session ''python3'')
      | Some k \<Rightarrow> Inl (HttpError 501 ''Kernel not found''))"

text \<open>A backend that answers every \<open>startNew\<close> with the HTTP status \<open>code\<close>.\<close>

definition failing_startNew :: "nat \<Rightarrow> nat \<Rightarrow> string \<Rightarrow> string option \<Rightarrow> js_error + session" where
  "failing_startNew code n path kernelName = Inl (HttpError code ''Request failed'')"

text \<open>
  A client session that \<open>initialize\<close> has started on the kernel \<open>python3\<close>, with a
  connection, and the kernel spec of the kernel that never becomes ready.
\<close>

definition example_started :: client_session where
  "example_started =
     snd (initialize (Some (example_connection ''c0''))
       (example_client (example_manager True plain_startNew)
          (Some \<lparr>preference_name = Some ''python3'', shouldStart = True\<rparr>)))"

definition broken_spec :: kernel_spec where
  "broken_spec = \<lparr>spec_name = ''broken'', spec_display_name = ''Broken''\<rparr>"

text \<open>
  A new client session that is to start the kernel \<open>n\<close>, on a backend that knows no
  kernel by name.
\<close>

definition example_missing :: "string \<Rightarrow> client_session" where
  "example_missing n =
     example_client (example_manager True notFound_startNew)
       (Some \<lparr>preference_name = Some n, shouldStart = True\<rparr>)"


definition spark_spec :: kernel_spec where
  "spark_spec = \<lparr>spec_name = ''spark3kernel'', spec_display_name = ''Spark 3''\<rparr>"

text \<open>
  A backend that answers a kernel name it does not know with the HTTP status 404 (Not
  Found), and starts \<open>python3\<close> when no name is given.
\<close>

definition notFound404_startNew :: "nat \<Rightarrow> string \<Rightarrow> string option \<Rightarrow> js_error + session" where
  "notFound404_startNew n path kernelName =
     (case kernelName of
        None \<Rightarrow> Inr (example_session ''python3'')
      | Some k \<Rightarrow> Inl (HttpError 404 ''Not Found''))"

definition example_missing404 :: client_session where
  "example_missing404 =
     example_client (example_manager True notFound404_startNew)
       (Some \<lparr>preference_name = Some ''missingKernel'', shouldStart = True\<rparr>)"

text \<open>
  A kernel that dies as it starts: its \<open>ready\<close> promise rejects and so does every
  request made to it. And the started client session whose backend session returns this
  kernel when asked to change kernel.
\<close>

definition dead_kernel :: kernel where
  "dead_kernel =
     \<lparr> kernel_name = ''spark3kernel'', kernel_isReady = False,
       kernel_ready = Some (JsError ''kernel died''),
       requestExecute_done = (\<lambda>code silent. Some (JsError ''request failed'')) \<rparr>"

definition example_dying :: client_session where
  "example_dying =
     example_started\<lparr>f_session :=
       Some ((example_session ''python3'')
               \<lparr>defaultKernelLoaded := Some True,
                 changeKernel_response := (\<lambda>name. Inr dead_kernel)\<rparr>)\<rparr>"


section \<open>Proofs\<close>

lemmas promise_defs =
  andThen_def tryCatch_def resolved_def throw_def modify_def emit_def resolve_def whenSettled_def

lemmas example_defs =
  example_livyServer_def example_kernel_def example_session_def example_manager_def
  example_connection_def example_client_def plain_startNew_def notFound_startNew_def
  failing_startNew_def ClientSession_def set_kernelPreference_def example_missing_def
  notFound404_startNew_def example_missing404_def

lemmas method_defs =
  initialize_def initialize_body_def startServerPromise_def startServer_def
  initializeSession_def startSessionInstance_def sessionStarted_def sessionManager_startNew_def
  runKernelConfigActions_def startAction_def runTasksBeforeSessionStart_def
  doNotCallChangeEndpointParams_def localize_ServerNotStarted_def
  getErrorMessage_def kernel_def
  changeKernel_def changeKernel_entry_def doChangeKernel_def updateConnection_def shutdown_def
  newDeferred_def
  toLowerCase_def toLowerChar_def

lemma await_cases: "await out s = (case out of None \<Rightarrow> (Inr (), s) | Some err \<Rightarrow> (Inl err, s))"
  by (cases out) (simp_all add: resolved_def throw_def)

lemma runTasksBeforeSessionStart_frame:
  "\<exists>t. snd (runTasksBeforeSessionStart kn s) = s\<lparr>trace := trace s @ t\<rparr> \<and>
       filter is_action_event t = [] \<and> filter is_start_or_switch t = []"
proof (cases "f_session s \<noteq> None \<and> f_connection s \<noteq> None \<and> isSparkKernel kn")
  case False
  then have "snd (runTasksBeforeSessionStart kn s) = s\<lparr>trace := trace s @ []\<rparr>"
    by (auto simp: runTasksBeforeSessionStart_def resolved_def)
  then show ?thesis by (intro exI [of _ "[]"]) simp
next
  case True
  show ?thesis
  proof (cases "session_kernel (the (f_session s))")
    case None
    with True have "snd (runTasksBeforeSessionStart kn s) = s\<lparr>trace := trace s @ []\<rparr>"
      by (simp add: runTasksBeforeSessionStart_def throw_def Let_def)
    then show ?thesis by (intro exI [of _ "[]"]) simp
  next
    case (Some k)
    define code where "code = doNotCallChangeEndpointParams (the (f_connection s))
       (livyServer s (host (the (f_connection s))) (knoxport (the (f_connection s))))"
    from Some True have "snd (runTasksBeforeSessionStart kn s) =
        s\<lparr>trace := trace s @ [Kernel_requestExecute code True]\<rparr>"
      by (simp add: runTasksBeforeSessionStart_def Let_def andThen_def emit_def await_cases code_def
          split: option.splits)
    then show ?thesis by (intro exI [of _ "[Kernel_requestExecute code True]"]) simp
  qed
qed

lemma action_promise_frame:
  "\<exists>t. snd (action_promise a kn s) = s\<lparr>trace := trace s @ t\<rparr> \<and>
       filter is_action_event t = [] \<and> filter is_start_or_switch t = []"
proof (cases a)
  case DefaultAction
  then show ?thesis using runTasksBeforeSessionStart_frame by simp
next
  case (Callback n out)
  then have "snd (action_promise a kn s) = s\<lparr>trace := trace s @ []\<rparr>"
    by (simp add: await_cases split: option.splits)
  then show ?thesis by (intro exI [of _ "[]"]) simp
qed

lemma startAction_frame:
  "\<exists>t. snd (startAction a kn s) = s\<lparr>trace := trace s @ t\<rparr> \<and>
       filter is_action_event t = action_events a kn \<and> filter is_start_or_switch t = []"
proof -
  define s1 where "s1 = s\<lparr>trace := trace s @ [Action_invoked (action_number a) kn]\<rparr>"
  obtain t where t: "snd (action_promise a kn s1) = s1\<lparr>trace := trace s1 @ t\<rparr>"
    and na: "filter is_action_event t = []" and ns: "filter is_start_or_switch t = []"
    using action_promise_frame by blast
  have "snd (startAction a kn s) =
      (snd (action_promise a kn s1))\<lparr>trace := trace (snd (action_promise a kn s1)) @ [Action_settled (action_number a)]\<rparr>"
    by (cases "action_promise a kn s1")
       (simp add: startAction_def andThen_def emit_def whenSettled_def s1_def)
  also have "\<dots> = s\<lparr>trace := trace s @ ([Action_invoked (action_number a) kn] @ t @ [Action_settled (action_number a)])\<rparr>"
    by (simp add: t) (simp add: s1_def)
  finally show ?thesis
    using na ns
    by (intro exI [of _ "[Action_invoked (action_number a) kn] @ t @ [Action_settled (action_number a)]"])
       (simp add: action_events_def)
qed


lemma runActions_Cons_Inl:
  "fst (startAction a kn s) = Inl e \<Longrightarrow> runActions (a # as) kn s = startAction a kn s"
  by (cases "startAction a kn s") (simp add: andThen_def)

lemma runActions_Cons_Inr:
  "fst (startAction a kn s) = Inr u \<Longrightarrow>
   runActions (a # as) kn s = runActions as kn (snd (startAction a kn s))"
  by (cases "startAction a kn s") (simp add: andThen_def)

text \<open>
  The loop over the actions only adds to the trace. The action events it adds are those
  of the first \<open>m\<close> actions, each action's pair after the pair before it, and of all the
  actions when the loop ends without a rejection.
\<close>

lemma runActions_frame:
  "\<exists>t m. snd (runActions as kn s) = s\<lparr>trace := trace s @ t\<rparr> \<and>
         m \<le> length as \<and>
         filter is_action_event t = concat (map (\<lambda>a. action_events a kn) (take m as)) \<and>
         filter is_start_or_switch t = [] \<and>
         (fst (runActions as kn s) = Inr () \<longrightarrow> m = length as)"
proof (induction as arbitrary: s)
  case Nil
  have "snd (runActions [] kn s) = s\<lparr>trace := trace s @ []\<rparr>" by (simp add: resolved_def)
  then show ?case by (intro exI [of _ "[]"] exI [of _ 0]) simp
next
  case (Cons a as)
  obtain t1 where t1: "snd (startAction a kn s) = s\<lparr>trace := trace s @ t1\<rparr>"
    and e1: "filter is_action_event t1 = action_events a kn"
    and n1: "filter is_start_or_switch t1 = []"
    using startAction_frame by blast
  show ?case
  proof (cases "fst (startAction a kn s)")
    case (Inl e)
    then have "runActions (a # as) kn s = startAction a kn s"
      by (rule runActions_Cons_Inl)
    with t1 e1 n1 Inl show ?thesis
      by (intro exI [of _ t1] exI [of _ 1]) simp
  next
    case (Inr u)
    define s1 where "s1 = s\<lparr>trace := trace s @ t1\<rparr>"
    from Inr have "runActions (a # as) kn s = runActions as kn (snd (startAction a kn s))"
      by (rule runActions_Cons_Inr)
    then have eq: "runActions (a # as) kn s = runActions as kn s1"
      by (simp only: t1 s1_def)
    obtain t2 m where t2: "snd (runActions as kn s1) = s1\<lparr>trace := trace s1 @ t2\<rparr>"
      and m: "m \<le> length as"
      and e2: "filter is_action_event t2 = concat (map (\<lambda>a. action_events a kn) (take m as))"
      and n2: "filter is_start_or_switch t2 = []"
      and r2: "fst (runActions as kn s1) = Inr () \<longrightarrow> m = length as"
      using Cons.IH by blast
    have "snd (runActions (a # as) kn s) = s\<lparr>trace := trace s @ (t1 @ t2)\<rparr>"
      using eq t2 by (simp add: s1_def)
    with m e1 e2 n1 n2 r2 eq show ?thesis
      by (intro exI [of _ "t1 @ t2"] exI [of _ "Suc m"]) simp
  qed
qed

lemma runKernelConfigActions_frame:
  "\<exists>t. snd (runKernelConfigActions kn s) = s\<lparr>trace := trace s @ t\<rparr>"
  unfolding runKernelConfigActions_def using runActions_frame by blast

subsection \<open>What the start and switch routines leave alone\<close>

lemma gates_kept_refl: "gates_kept s s"
  by (simp add: gates_kept_def)

lemma gates_kept_trans: "gates_kept s s1 \<Longrightarrow> gates_kept s1 s2 \<Longrightarrow> gates_kept s s2"
  by (simp add: gates_kept_def)

lemma gates_kept_andThen:
  assumes "\<And>s. gates_kept s (snd (m s))" and "\<And>x s. gates_kept s (snd (f x s))"
  shows "gates_kept s (snd (andThen m f s))"
proof (cases "m s")
  case (Pair r s1)
  from assms(1) [of s] Pair have 1: "gates_kept s s1" by simp
  show ?thesis
  proof (cases r)
    case (Inl e)
    with Pair 1 show ?thesis by (simp add: andThen_def)
  next
    case (Inr x)
    with Pair have "snd (andThen m f s) = snd (f x s1)" by (simp add: andThen_def)
    with 1 assms(2) [of s1 x] show ?thesis by (auto intro: gates_kept_trans)
  qed
qed

lemma gates_kept_tryCatch:
  assumes "\<And>s. gates_kept s (snd (m s))" and "\<And>e s. gates_kept s (snd (h e s))"
  shows "gates_kept s (snd (tryCatch m h s))"
proof (cases "m s")
  case (Pair r s1)
  from assms(1) [of s] Pair have 1: "gates_kept s s1" by simp
  show ?thesis
  proof (cases r)
    case (Inr x)
    with Pair 1 show ?thesis by (simp add: tryCatch_def)
  next
    case (Inl e)
    with Pair have "snd (tryCatch m h s) = snd (h e s1)" by (simp add: tryCatch_def)
    with 1 assms(2) [of s1 e] show ?thesis by (auto intro: gates_kept_trans)
  qed
qed

lemma gates_kept_emit: "gates_kept s (snd (emit e s))"
  by (simp add: emit_def gates_kept_def)

lemma gates_kept_await: "gates_kept s (snd (await out s))"
  by (simp add: await_cases gates_kept_def split: option.splits)

lemma gates_kept_resolved: "gates_kept s (snd (resolved x s))"
  by (simp add: resolved_def gates_kept_def)

lemma gates_kept_throw: "gates_kept s (snd (throw e s))"
  by (simp add: throw_def gates_kept_def)

lemma gates_kept_startNew: "gates_kept s (snd (sessionManager_startNew p kn s))"
  by (simp add: sessionManager_startNew_def gates_kept_def)

lemma gates_kept_runKernelConfigActions: "gates_kept s (snd (runKernelConfigActions kn s))"
proof -
  obtain t where "snd (runKernelConfigActions kn s) = s\<lparr>trace := trace s @ t\<rparr>"
    using runKernelConfigActions_frame by blast
  then show ?thesis by (simp add: gates_kept_def)
qed

lemma gates_kept_modify: "gates_kept s (f s) \<Longrightarrow> gates_kept s (snd (modify f s))"
  by (simp add: modify_def)

lemma gates_kept_update:
  "gates_kept s (s\<lparr>trace := t\<rparr>)"
  "gates_kept s (s\<lparr>f_session := x\<rparr>)"
  "gates_kept s (s\<lparr>f_connection := c\<rparr>)"
  "gates_kept s (s\<lparr>f_kernelConfigActions := as\<rparr>)"
  "gates_kept s (s\<lparr>notebookManager := m\<rparr>)"
  "gates_kept s (s\<lparr>isServerStarted := b\<rparr>)"
  "gates_kept s (s\<lparr>f_serverLoadFinished := out\<rparr>)"
  by (simp_all add: gates_kept_def)

lemmas gates_kept_intros =
  gates_kept_andThen gates_kept_tryCatch gates_kept_emit gates_kept_await gates_kept_resolved
  gates_kept_throw gates_kept_startNew gates_kept_runKernelConfigActions gates_kept_modify
  gates_kept_update gates_kept_refl

lemma gates_kept_startServer: "gates_kept s (snd (startServer s))"
  unfolding startServer_def
  by (auto split: option.splits intro!: gates_kept_intros)

lemma gates_kept_sessionStarted: "gates_kept s (snd (sessionStarted kn sess s))"
  unfolding sessionStarted_def
  by (auto intro!: gates_kept_intros)

lemma gates_kept_startSessionInstance: "gates_kept s (snd (startSessionInstance kn s))"
  unfolding startSessionInstance_def
  by (auto intro!: gates_kept_intros gates_kept_sessionStarted)

lemma gates_kept_initializeSession: "gates_kept s (snd (initializeSession s))"
  unfolding initializeSession_def
  by (auto split: option.splits intro!: gates_kept_intros gates_kept_startSessionInstance)

lemma gates_kept_startServerPromise: "gates_kept s (snd (startServerPromise s))"
  using gates_kept_startServer [of s]
  by (cases "startServer s") (auto simp: startServerPromise_def gates_kept_def split: sum.splits)

lemma gates_kept_initialize_body: "gates_kept s (snd (initialize_body conn s))"
  unfolding initialize_body_def
  by (auto intro!: gates_kept_intros gates_kept_startServerPromise gates_kept_initializeSession)

lemma gates_kept_doChangeKernel: "gates_kept s (snd (doChangeKernel options s))"
  unfolding doChangeKernel_def
  by (auto split: option.splits intro!: gates_kept_intros gates_kept_startSessionInstance)

lemma gates_kept_updateConnection: "gates_kept s (snd (updateConnection c s))"
  unfolding updateConnection_def
  by (auto split: option.splits intro!: gates_kept_intros)

lemma gates_kept_shutdown: "gates_kept s (snd (shutdown s))"
  unfolding shutdown_def
  by (auto split: option.splits intro!: gates_kept_intros)


subsection \<open>initialize\<close>

lemma initialize_unfold:
  "initialize conn s =
     (let s1 = snd (initialize_body conn s);
          s2 = (case fst (initialize_body conn s) of
                  Inl err \<Rightarrow> s1\<lparr>f_errorMessage := Some (getErrorMessage err)\<rparr>
                | Inr u \<Rightarrow> s1);
          s3 = s2\<lparr>f_isReady := True\<rparr>;
          s4 = s3\<lparr>deferreds := (deferreds s3)(f_ready s3 := Suc (deferreds s3 (f_ready s3)))\<rparr>
      in (Inr (),
          s4\<lparr>deferreds := (deferreds s4)(f_kernelChangeCompleted s4 :=
                 Suc (deferreds s4 (f_kernelChangeCompleted s4)))\<rparr>))"
  by (cases "initialize_body conn s"; cases "fst (initialize_body conn s)")
     (simp_all add: initialize_def promise_defs Let_def)

lemma initialize_gates:
  assumes "f_ready s \<noteq> f_kernelChangeCompleted s"
  shows "fst (initialize conn s) = Inr ()"
    and "f_isReady (snd (initialize conn s))"
    and "f_ready (snd (initialize conn s)) = f_ready s"
    and "f_kernelChangeCompleted (snd (initialize conn s)) = f_kernelChangeCompleted s"
    and "deferreds (snd (initialize conn s)) =
           (deferreds s)(f_ready s := Suc (deferreds s (f_ready s)),
                         f_kernelChangeCompleted s := Suc (deferreds s (f_kernelChangeCompleted s)))"
    and "f_errorMessage (snd (initialize conn s)) =
           (case fst (initialize_body conn s) of
              Inl err \<Rightarrow> Some (getErrorMessage err)
            | Inr u \<Rightarrow> f_errorMessage s)"
  using assms gates_kept_initialize_body [of s conn]
  by (auto simp: initialize_unfold Let_def gates_kept_def split: sum.splits)


subsection \<open>changeKernel\<close>

lemma changeKernel_entry_simps:
  "f_kernelChangeCompleted (changeKernel_entry s) = nextDeferred s"
  "nextDeferred (changeKernel_entry s) = Suc (nextDeferred s)"
  "deferreds (changeKernel_entry s) = (deferreds s)(nextDeferred s := 0)"
  "f_ready (changeKernel_entry s) = f_ready s"
  "f_isReady (changeKernel_entry s) = False"
  "f_errorMessage (changeKernel_entry s) = f_errorMessage s"
  "trace (changeKernel_entry s) = trace s"
  "f_session (changeKernel_entry s) = f_session s"
  by (simp_all add: changeKernel_entry_def newDeferred_def)

lemma changeKernel_throws:
  "doChangeKernel options (changeKernel_entry s) = (Inl e, s2) \<Longrightarrow>
   changeKernel options s = (Inl e, s2)"
  by (simp add: changeKernel_def promise_defs changeKernel_entry_def newDeferred_def kernel_def)

lemma changeKernel_no_kernel:
  "doChangeKernel options (changeKernel_entry s) = (Inr None, s2) \<Longrightarrow>
   changeKernel options s = (Inl (TypeError ''isReady of undefined''), s2)"
  by (simp add: changeKernel_def promise_defs changeKernel_entry_def newDeferred_def kernel_def)

lemma changeKernel_rejected:
  "doChangeKernel options (changeKernel_entry s) = (Inr (Some k), s2) \<Longrightarrow>
   kernel_ready k = Some err \<Longrightarrow>
   changeKernel options s =
     (Inl err,
      s2\<lparr>f_isReady := kernel_isReady k,
         deferreds := (deferreds s2)(f_kernelChangeCompleted s2 :=
           Suc (deferreds s2 (f_kernelChangeCompleted s2)))\<rparr>)"
  by (simp add: changeKernel_def promise_defs changeKernel_entry_def newDeferred_def kernel_def)

lemma changeKernel_no_session:
  "doChangeKernel options (changeKernel_entry s) = (Inr (Some k), s2) \<Longrightarrow>
   kernel_ready k = None \<Longrightarrow> f_session s2 = None \<Longrightarrow>
   changeKernel options s = (Inl (TypeError ''kernel of undefined''), s2)"
  by (simp add: changeKernel_def promise_defs changeKernel_entry_def newDeferred_def kernel_def)

lemma changeKernel_fulfilled:
  "doChangeKernel options (changeKernel_entry s) = (Inr (Some k), s2) \<Longrightarrow>
   kernel_ready k = None \<Longrightarrow> f_session s2 = Some sess \<Longrightarrow>
   changeKernel options s =
     (Inr k,
      s2\<lparr>f_isReady := kernel_isReady k,
         deferreds := (deferreds s2)(f_kernelChangeCompleted s2 :=
           Suc (deferreds s2 (f_kernelChangeCompleted s2))),
         trace := trace s2 @ [KernelChanged_fire (map_option kernel_name (kernel s))
                                (Some (kernel_name k))]\<rparr>)"
  by (simp add: changeKernel_def promise_defs changeKernel_entry_def newDeferred_def kernel_def)


subsection \<open>Starting a session\<close>

lemma sessionStarted_frame:
  "\<exists>t. snd (sessionStarted kn sess s) = s\<lparr>f_session := Some sess, trace := trace s @ t\<rparr> \<and>
       filter is_start_or_switch t = [] \<and>
       (fst (sessionStarted kn sess s) = Inr () \<longrightarrow>
          filter is_action_event t = concat (map (\<lambda>a. action_events a kn) (f_kernelConfigActions s)))"
proof -
  define s1 where "s1 = s\<lparr>f_session := Some sess\<rparr>"
  obtain t m where t: "snd (runActions (f_kernelConfigActions s1) kn s1) = s1\<lparr>trace := trace s1 @ t\<rparr>"
    and e: "filter is_action_event t = concat (map (\<lambda>a. action_events a kn) (take m (f_kernelConfigActions s1)))"
    and n: "filter is_start_or_switch t = []"
    and r: "fst (runActions (f_kernelConfigActions s1) kn s1) = Inr () \<longrightarrow> m = length (f_kernelConfigActions s1)"
    using runActions_frame by blast
  show ?thesis
  proof (cases "fst (runActions (f_kernelConfigActions s1) kn s1)")
    case (Inl err)
    then have "sessionStarted kn sess s = (Inl err, s1\<lparr>trace := trace s1 @ t\<rparr>)"
      using t by (cases "runActions (f_kernelConfigActions s1) kn s1")
        (simp add: sessionStarted_def runKernelConfigActions_def andThen_def modify_def s1_def)
    with n show ?thesis by (intro exI [of _ t]) (simp add: s1_def)
  next
    case (Inr u)
    then have "sessionStarted kn sess s = (Inr (), s1\<lparr>trace := trace s1 @ t @ [StatusChanged_fire]\<rparr>)"
      using t by (cases "runActions (f_kernelConfigActions s1) kn s1")
        (simp add: sessionStarted_def runKernelConfigActions_def andThen_def modify_def emit_def s1_def)
    with n e r Inr show ?thesis
      by (intro exI [of _ "t @ [StatusChanged_fire]"]) (simp add: s1_def)
  qed
qed

text \<open>The four ways through the \<open>try\<close> and the \<open>catch\<close> of \<open>startSessionInstance\<close>.\<close>

lemma startSessionInstance_found:
  assumes "startNew_response (sessionManager (notebookManager s)) (startNewCalls s) (f_path s) kn = Inr sess"
  shows "startSessionInstance kn s =
     sessionStarted kn (sess\<lparr>defaultKernelLoaded := Some True\<rparr>)
       (s\<lparr>startNewCalls := Suc (startNewCalls s),
          trace := trace s @ [SessionManager_startNew (f_path s) kn]\<rparr>)"
  using assms
  by (simp add: startSessionInstance_def sessionManager_startNew_def andThen_def tryCatch_def resolved_def)

lemma startSessionInstance_rethrown:
  assumes "startNew_response (sessionManager (notebookManager s)) (startNewCalls s) (f_path s) kn = Inl err"
    and "response_status err \<noteq> Some 501"
  shows "startSessionInstance kn s =
     (Inl err,
      s\<lparr>startNewCalls := Suc (startNewCalls s),
        trace := trace s @ [SessionManager_startNew (f_path s) kn]\<rparr>)"
  using assms
  by (simp add: startSessionInstance_def sessionManager_startNew_def andThen_def tryCatch_def
      resolved_def throw_def)

lemma startSessionInstance_fallback:
  assumes "startNew_response (sessionManager (notebookManager s)) (startNewCalls s) (f_path s) kn = Inl err"
    and "response_status err = Some 501"
    and "startNew_response (sessionManager (notebookManager s)) (Suc (startNewCalls s)) (f_path s) None = Inr sess"
  shows "startSessionInstance kn s =
     sessionStarted kn (sess\<lparr>defaultKernelLoaded := Some False\<rparr>)
       (s\<lparr>startNewCalls := Suc (Suc (startNewCalls s)),
          trace := trace s @ [SessionManager_startNew (f_path s) kn,
                              Notification_warn (localize_sparkKernelRequiresConnection kn),
                              SessionManager_startNew (f_path s) None]\<rparr>)"
  using assms
  by (simp add: startSessionInstance_def sessionManager_startNew_def andThen_def tryCatch_def
      resolved_def throw_def emit_def)

lemma startSessionInstance_fallback_fails:
  assumes "startNew_response (sessionManager (notebookManager s)) (startNewCalls s) (f_path s) kn = Inl err"
    and "response_status err = Some 501"
    and "startNew_response (sessionManager (notebookManager s)) (Suc (startNewCalls s)) (f_path s) None = Inl err2"
  shows "startSessionInstance kn s =
     (Inl err2,
      s\<lparr>startNewCalls := Suc (Suc (startNewCalls s)),
        trace := trace s @ [SessionManager_startNew (f_path s) kn,
                            Notification_warn (localize_sparkKernelRequiresConnection kn),
                            SessionManager_startNew (f_path s) None]\<rparr>)"
  using assms
  by (simp add: startSessionInstance_def sessionManager_startNew_def andThen_def tryCatch_def
      resolved_def throw_def emit_def)

lemma sessionStarted_session: "f_session (snd (sessionStarted kn sess s)) = Some sess"
proof -
  obtain t where "snd (sessionStarted kn sess s) = s\<lparr>f_session := Some sess, trace := trace s @ t\<rparr>"
    using sessionStarted_frame by blast
  then show ?thesis by simp
qed

lemma startSessionInstance_session:
  assumes "fst (startSessionInstance kn s) = Inr u"
  shows "f_session (snd (startSessionInstance kn s)) \<noteq> None"
proof (cases "startNew_response (sessionManager (notebookManager s)) (startNewCalls s) (f_path s) kn")
  case (Inr sess)
  show ?thesis
    by (simp add: startSessionInstance_found [OF Inr] sessionStarted_session)
next
  case (Inl err)
  show ?thesis
  proof (cases "response_status err = Some 501")
    case False
    with assms Inl show ?thesis by (simp add: startSessionInstance_rethrown)
  next
    case True
    show ?thesis
    proof (cases "startNew_response (sessionManager (notebookManager s)) (Suc (startNewCalls s)) (f_path s) None")
      case (Inl err2)
      with assms \<open>startNew_response _ _ _ kn = Inl err\<close> True show ?thesis
        by (simp add: startSessionInstance_fallback_fails)
    next
      case (Inr sess)
      show ?thesis
        by (simp add: startSessionInstance_fallback [OF Inl True Inr] sessionStarted_session)
    qed
  qed
qed

lemma doChangeKernel_session:
  assumes "doChangeKernel options s = (Inr ko, s2)"
  shows "f_session s2 \<noteq> None"
proof (cases "f_session s")
  case None
  then have eq: "doChangeKernel options s =
      andThen (startSessionInstance (Some (spec_name options))) (\<lambda>_ s. resolved (kernel s) s) s"
    by (simp add: doChangeKernel_def)
  show ?thesis
  proof (cases "startSessionInstance (Some (spec_name options)) s")
    case (Pair r s1)
    with assms eq have r: "r = Inr ()" and s2: "s2 = s1"
      by (auto simp: andThen_def resolved_def split: sum.splits)
    from startSessionInstance_session [of "Some (spec_name options)" s] Pair r s2
    show ?thesis by simp
  qed
next
  case (Some sess)
  define s0 where "s0 = s\<lparr>trace := trace s @ [Session_changeKernel (spec_name options)]\<rparr>"
  show ?thesis
  proof (cases "changeKernel_response sess (spec_name options)")
    case (Inl e)
    with Some assms show ?thesis
      by (simp add: doChangeKernel_def andThen_def emit_def)
  next
    case (Inr k)
    define s1 where "s1 = s0\<lparr>f_session := Some (sess\<lparr>session_kernel := Some k\<rparr>)\<rparr>"
    obtain t where t: "snd (runKernelConfigActions (Some (kernel_name k)) s1) = s1\<lparr>trace := trace s1 @ t\<rparr>"
      using runKernelConfigActions_frame by blast
    from Some Inr have "snd (doChangeKernel options s) = snd (runKernelConfigActions (Some (kernel_name k)) s1)"
      by (cases "runKernelConfigActions (Some (kernel_name k)) s1"; cases "fst (runKernelConfigActions (Some (kernel_name k)) s1)")
         (simp_all add: doChangeKernel_def andThen_def emit_def modify_def resolved_def s1_def s0_def)
    with assms t show ?thesis by (simp add: s1_def)
  qed
qed

lemma changeKernel_cases:
  obtains (throws) e s2 where "doChangeKernel options (changeKernel_entry s) = (Inl e, s2)"
      and "changeKernel options s = (Inl e, s2)"
  | (no_kernel) s2 where "doChangeKernel options (changeKernel_entry s) = (Inr None, s2)"
      and "changeKernel options s = (Inl (TypeError ''isReady of undefined''), s2)"
  | (rejected) k err s2 where "doChangeKernel options (changeKernel_entry s) = (Inr (Some k), s2)"
      and "kernel_ready k = Some err"
      and "changeKernel options s =
         (Inl err,
          s2\<lparr>f_isReady := kernel_isReady k,
             deferreds := (deferreds s2)(f_kernelChangeCompleted s2 :=
               Suc (deferreds s2 (f_kernelChangeCompleted s2)))\<rparr>)"
  | (fulfilled) k s2 where "doChangeKernel options (changeKernel_entry s) = (Inr (Some k), s2)"
      and "kernel_ready k = None"
      and "changeKernel options s =
         (Inr k,
          s2\<lparr>f_isReady := kernel_isReady k,
             deferreds := (deferreds s2)(f_kernelChangeCompleted s2 :=
               Suc (deferreds s2 (f_kernelChangeCompleted s2))),
             trace := trace s2 @ [KernelChanged_fire (map_option kernel_name (kernel s))
                                    (Some (kernel_name k))]\<rparr>)"
proof (cases "doChangeKernel options (changeKernel_entry s)")
  case (Pair r s2)
  show ?thesis
  proof (cases r)
    case (Inl e)
    with Pair show ?thesis using throws changeKernel_throws by blast
  next
    case (Inr ko)
    show ?thesis
    proof (cases ko)
      case None
      with Pair Inr show ?thesis using no_kernel changeKernel_no_kernel by blast
    next
      case (Some k)
      with Pair Inr have d: "doChangeKernel options (changeKernel_entry s) = (Inr (Some k), s2)" by simp
      from doChangeKernel_session [OF d] obtain sess where sess: "f_session s2 = Some sess" by auto
      show ?thesis
      proof (cases "kernel_ready k")
        case None
        from changeKernel_fulfilled [OF d None sess] d None show ?thesis by (rule fulfilled [rotated 2])
      next
        case (Some err)
        from changeKernel_rejected [OF d Some] d Some show ?thesis by (rule rejected [rotated 2])
      qed
    qed
  qed
qed

lemma changeKernel_gates:
  "f_ready (snd (changeKernel options s)) = f_ready s"
  "f_kernelChangeCompleted (snd (changeKernel options s)) = nextDeferred s"
  "nextDeferred (snd (changeKernel options s)) = Suc (nextDeferred s)"
  "f_errorMessage (snd (changeKernel options s)) = f_errorMessage s"
  "g \<noteq> nextDeferred s \<Longrightarrow> deferreds (snd (changeKernel options s)) g = deferreds s g"
proof -
  have k: "gates_kept (changeKernel_entry s) (snd (doChangeKernel options (changeKernel_entry s)))"
    by (rule gates_kept_doChangeKernel)
  show "f_ready (snd (changeKernel options s)) = f_ready s"
    using k by (cases rule: changeKernel_cases [of options s])
      (simp_all add: gates_kept_def changeKernel_entry_simps)
  show "f_kernelChangeCompleted (snd (changeKernel options s)) = nextDeferred s"
    using k by (cases rule: changeKernel_cases [of options s])
      (simp_all add: gates_kept_def changeKernel_entry_simps)
  show "nextDeferred (snd (changeKernel options s)) = Suc (nextDeferred s)"
    using k by (cases rule: changeKernel_cases [of options s])
      (simp_all add: gates_kept_def changeKernel_entry_simps)
  show "f_errorMessage (snd (changeKernel options s)) = f_errorMessage s"
    using k by (cases rule: changeKernel_cases [of options s])
      (simp_all add: gates_kept_def changeKernel_entry_simps)
  show "deferreds (snd (changeKernel options s)) g = deferreds s g" if "g \<noteq> nextDeferred s"
    using k that by (cases rule: changeKernel_cases [of options s])
      (simp_all add: gates_kept_def changeKernel_entry_simps)
qed

lemma changeKernel_isReady:
  "f_isReady (snd (changeKernel options s)) =
     (case fst (doChangeKernel options (changeKernel_entry s)) of
        Inl e \<Rightarrow> False
      | Inr None \<Rightarrow> False
      | Inr (Some k) \<Rightarrow> kernel_isReady k)"
  using gates_kept_doChangeKernel [of "changeKernel_entry s" options]
  by (cases rule: changeKernel_cases [of options s])
     (simp_all add: gates_kept_def changeKernel_entry_simps)

text \<open>The two gates of a reachable client session are two gates that have been allocated.\<close>

lemma reachable_gates:
  "reachable s \<Longrightarrow>
   f_ready s < nextDeferred s \<and> f_kernelChangeCompleted s < nextDeferred s \<and>
   f_ready s \<noteq> f_kernelChangeCompleted s"
proof (induction rule: reachable.induct)
  case (constructed livy options)
  show ?case by (simp add: ClientSession_def)
next
  case (preference s p)
  then show ?case by (simp add: set_kernelPreference_def)
next
  case (initialized s conn)
  then show ?case
    using gates_kept_initialize_body [of s conn]
    by (simp add: initialize_unfold Let_def gates_kept_def split: sum.splits)
next
  case (kernelChanged s spec)
  then show ?case by (simp add: changeKernel_gates)
next
  case (connectionUpdated s c)
  then show ?case using gates_kept_updateConnection [of s c] by (simp add: gates_kept_def)
next
  case (shutDown s)
  then show ?case using gates_kept_shutdown [of s] by (simp add: gates_kept_def)
next
  case (backend s sess sess')
  then show ?case by simp
qed


subsection \<open>updateConnection\<close>

lemma updateConnection_no_kernel: "kernel s = None \<Longrightarrow> updateConnection c s = (Inr (), s)"
  by (simp add: updateConnection_def resolved_def)

lemma updateConnections_no_kernel:
  "kernel s = None \<Longrightarrow> updateConnections cs s = (replicate (length cs) (Inr ()), s)"
  by (induction cs) (simp_all add: updateConnection_no_kernel)

lemma kernel_trace [simp]: "kernel (s\<lparr>trace := t\<rparr>) = kernel s"
  by (simp add: kernel_def)

lemma updateConnection_connection:
  "f_connection (snd (updateConnection c s)) =
     (if kernel s = None \<or> connectionProfile_id c = ''-1'' then f_connection s else Some c)"
proof (cases "kernel s")
  case None
  then show ?thesis by (simp add: updateConnection_no_kernel)
next
  case (Some k)
  define s1 where "s1 = s\<lparr>f_connection :=
      (if connectionProfile_id c \<noteq> ''-1'' then Some c else f_connection s)\<rparr>"
  have k1: "kernel s1 = Some k" using Some by (simp add: s1_def kernel_def)
  obtain t where t: "snd (runKernelConfigActions (Some (kernel_name k)) s1) = s1\<lparr>trace := trace s1 @ t\<rparr>"
    using runKernelConfigActions_frame by blast
  have "snd (updateConnection c s) = s1 \<or> snd (updateConnection c s) = s1\<lparr>trace := trace s1 @ t\<rparr>"
    using Some k1 t unfolding updateConnection_def
    by (simp add: andThen_def modify_def resolved_def s1_def [symmetric])
  then have "f_connection (snd (updateConnection c s)) = f_connection s1" by auto
  then show ?thesis using Some by (simp add: s1_def)
qed


text \<open>
  C7: after \<open>initialize\<close>, any number of \<open>updateConnection\<close> calls made while no kernel
  is active all return normally, and they leave the state as it was: the trace has no
  new event, and so no call of a kernel-config action.
\<close>

theorem updateConnection_without_kernel_never_throws:
  "kernel (snd (initialize conn s0)) = None \<Longrightarrow>
   fst (updateConnections cs (snd (initialize conn s0))) = replicate (length cs) (Inr ()) \<and>
   snd (updateConnections cs (snd (initialize conn s0))) = snd (initialize conn s0) \<and>
   filter is_action_event
     (new_events (snd (initialize conn s0)) (snd (updateConnections cs (snd (initialize conn s0))))) = []"
  by (simp add: updateConnections_no_kernel new_events_def)

theorem updateConnection_without_kernel_never_throws_witness:
  "kernel (snd (initialize None (example_client (example_manager True plain_startNew) None))) = None \<and>
   fst (updateConnections [example_connection ''c1'', example_connection ''-1'']
       (snd (initialize None (example_client (example_manager True plain_startNew) None)))) =
     [Inr (), Inr ()] \<and>
   trace (snd (updateConnections [example_connection ''c1'', example_connection ''-1'']
       (snd (initialize None (example_client (example_manager True plain_startNew) None))))) =
     [ServerManager_startServer]"
proof -
  define s where "s = snd (initialize None (example_client (example_manager True plain_startNew) None))"
  have k: "kernel s = None"
    unfolding s_def by (simp add: method_defs example_defs promise_defs)
  have t: "trace s = [ServerManager_startServer]"
    unfolding s_def by (simp add: method_defs example_defs promise_defs)
  from updateConnection_without_kernel_never_throws
         [of None "example_client (example_manager True plain_startNew) None"
             "[example_connection ''c1'', example_connection ''-1'']"] k t
  show ?thesis unfolding s_def [symmetric] by simp
qed

text \<open>
  C8: a connection whose profile id is \<open>-1\<close> never replaces the held connection; any other
  connection replaces it when a kernel is active.
\<close>

theorem updateConnection_sentinel:
  "(connectionProfile_id connection = ''-1'' \<longrightarrow>
      f_connection (snd (updateConnection connection s)) = f_connection s) \<and>
   (connectionProfile_id connection \<noteq> ''-1'' \<and> kernel s \<noteq> None \<longrightarrow>
      f_connection (snd (updateConnection connection s)) = Some connection)"
  by (simp add: updateConnection_connection)

theorem updateConnection_sentinel_witness:
  "kernel (snd (initialize (Some (example_connection ''c0''))
      (example_client (example_manager True plain_startNew)
         (Some \<lparr>preference_name = Some ''python3'', shouldStart = True\<rparr>)))) \<noteq> None \<and>
   f_connection (snd (updateConnection (example_connection ''-1'')
      (snd (initialize (Some (example_connection ''c0''))
         (example_client (example_manager True plain_startNew)
            (Some \<lparr>preference_name = Some ''python3'', shouldStart = True\<rparr>)))))) =
     Some (example_connection ''c0'') \<and>
   f_connection (snd (updateConnection (example_connection ''c1'')
      (snd (initialize (Some (example_connection ''c0''))
         (example_client (example_manager True plain_startNew)
            (Some \<lparr>preference_name = Some ''python3'', shouldStart = True\<rparr>)))))) =
     Some (example_connection ''c1'')"
proof -
  define s where "s = snd (initialize (Some (example_connection ''c0''))
      (example_client (example_manager True plain_startNew)
         (Some \<lparr>preference_name = Some ''python3'', shouldStart = True\<rparr>)))"
  have k: "kernel s \<noteq> None"
    unfolding s_def by (simp add: method_defs example_defs promise_defs)
  have c: "f_connection s = Some (example_connection ''c0'')"
    unfolding s_def by (simp add: method_defs example_defs promise_defs)
  have i1: "connectionProfile_id (example_connection ''-1'') = ''-1''"
    and i2: "connectionProfile_id (example_connection ''c1'') \<noteq> ''-1''"
    by (simp_all add: example_connection_def)
  from updateConnection_sentinel [of "example_connection ''-1''" s]
       updateConnection_sentinel [of "example_connection ''c1''" s] k c i1 i2
  show ?thesis unfolding s_def [symmetric] by simp
qed

text \<open>
  C10: while no kernel is active \<open>updateConnection\<close> returns before the assignment, so the
  held connection stays, whatever the profile id of the incoming one.
\<close>

theorem updateConnection_without_kernel_keeps_connection:
  "kernel s = None \<Longrightarrow>
   fst (updateConnection connection s) = Inr () \<and>
   f_connection (snd (updateConnection connection s)) = f_connection s"
  by (simp add: updateConnection_no_kernel)

theorem updateConnection_without_kernel_keeps_connection_witness:
  "connectionProfile_id (example_connection ''c1'') \<noteq> ''-1'' \<and>
   kernel (snd (initialize (Some (example_connection ''c0''))
      (example_client (example_manager True plain_startNew) None))) = None \<and>
   f_connection (snd (updateConnection (example_connection ''c1'')
      (snd (initialize (Some (example_connection ''c0''))
         (example_client (example_manager True plain_startNew) None))))) =
     Some (example_connection ''c0'')"
proof -
  define s where "s = snd (initialize (Some (example_connection ''c0''))
      (example_client (example_manager True plain_startNew) None))"
  have k: "kernel s = None"
    unfolding s_def by (simp add: method_defs example_defs promise_defs)
  have c: "f_connection s = Some (example_connection ''c0'')"
    unfolding s_def by (simp add: method_defs example_defs promise_defs)
  from updateConnection_without_kernel_keeps_connection [OF k, of "example_connection ''c1''"] k c
  show ?thesis unfolding s_def [symmetric] by (simp add: example_connection_def)
qed

subsection \<open>The claims about initialize\<close>

text \<open>
  C1: whatever the start of the server, of the session and of the kernel does, a call of
  \<open>initialize\<close> on a reachable client session fulfils (it never rejects), sets
  \<open>isReady\<close>, and calls \<open>resolve()\<close> exactly once on the \<open>ready\<close> gate and exactly once
  on the \<open>kernelChangeCompleted\<close> gate, which are both resolved afterwards. An exception
  of the start sequence ends as the error message.
\<close>

theorem initialize_always_resolves:
  assumes "reachable s"
  shows "fst (initialize conn s) = Inr () \<and>
         isReady (snd (initialize conn s)) \<and>
         f_ready (snd (initialize conn s)) = f_ready s \<and>
         f_kernelChangeCompleted (snd (initialize conn s)) = f_kernelChangeCompleted s \<and>
         deferreds (snd (initialize conn s)) (f_ready s) = Suc (deferreds s (f_ready s)) \<and>
         deferreds (snd (initialize conn s)) (f_kernelChangeCompleted s) =
           Suc (deferreds s (f_kernelChangeCompleted s)) \<and>
         isResolved (f_ready s) (snd (initialize conn s)) \<and>
         isResolved (f_kernelChangeCompleted s) (snd (initialize conn s)) \<and>
         errorMessage (snd (initialize conn s)) =
           (case fst (initialize_body conn s) of
              Inl err \<Rightarrow> Some (getErrorMessage err)
            | Inr u \<Rightarrow> errorMessage s)"
proof -
  from assms have d: "f_ready s \<noteq> f_kernelChangeCompleted s"
    using reachable_gates by blast
  show ?thesis
    using initialize_gates [OF d, of conn] d
    by (simp add: isReady_def isResolved_def errorMessage_def split: sum.splits)
qed

theorem initialize_always_resolves_witness:
  "reachable (example_client (example_manager True (failing_startNew 500))
      (Some \<lparr>preference_name = Some ''python3'', shouldStart = True\<rparr>)) \<and>
   fst (initialize None (example_client (example_manager True (failing_startNew 500))
      (Some \<lparr>preference_name = Some ''python3'', shouldStart = True\<rparr>))) = Inr () \<and>
   isReady (snd (initialize None (example_client (example_manager True (failing_startNew 500))
      (Some \<lparr>preference_name = Some ''python3'', shouldStart = True\<rparr>)))) \<and>
   deferreds (snd (initialize None (example_client (example_manager True (failing_startNew 500))
      (Some \<lparr>preference_name = Some ''python3'', shouldStart = True\<rparr>)))) 0 = 1 \<and>
   deferreds (snd (initialize None (example_client (example_manager True (failing_startNew 500))
      (Some \<lparr>preference_name = Some ''python3'', shouldStart = True\<rparr>)))) 1 = 1 \<and>
   errorMessage (snd (initialize None (example_client (example_manager True (failing_startNew 500))
      (Some \<lparr>preference_name = Some ''python3'', shouldStart = True\<rparr>)))) = Some ''Request failed''"
proof -
  define s where "s = example_client (example_manager True (failing_startNew 500))
      (Some \<lparr>preference_name = Some ''python3'', shouldStart = True\<rparr>)"
  have r: "reachable s"
    unfolding s_def example_client_def by (intro reachable.intros)
  have g: "f_ready s = 0" "f_kernelChangeCompleted s = 1" "deferreds s 0 = 0" "deferreds s 1 = 0"
    unfolding s_def by (simp_all add: example_defs)
  have b: "fst (initialize_body None s) = Inl (HttpError 500 ''Request failed'')"
    unfolding s_def by (simp add: method_defs example_defs promise_defs)
  from initialize_always_resolves [OF r, of None] r g b
  show ?thesis unfolding s_def [symmetric] by (simp add: getErrorMessage_def)
qed

text \<open>
  C6: a new client session whose server manager is not started, and is still not started
  when \<open>startServer()\<close> has been awaited: \<open>initialize\<close> fulfils, the session is ready
  and in the error state, and the error message says that the server did not start.
\<close>

theorem server_did_not_start:
  assumes "serverManager (options_notebookManager options) = Some sm"
    and "\<not> isStarted sm" and "startServer_outcome sm = None" and "\<not> startServer_isStarted sm"
  shows "fst (initialize conn (set_kernelPreference pref (ClientSession livy options))) = Inr () \<and>
         isReady (snd (initialize conn (set_kernelPreference pref (ClientSession livy options)))) \<and>
         isInErrorState (snd (initialize conn (set_kernelPreference pref (ClientSession livy options)))) \<and>
         errorMessage (snd (initialize conn (set_kernelPreference pref (ClientSession livy options)))) =
           Some ''Server did not start for unknown reason'' \<and>
         indexOf ''Server did not start for unknown reason'' ''did not start'' > - 1"
proof -
  define s where "s = set_kernelPreference pref (ClientSession livy options)"
  have d: "f_ready s \<noteq> f_kernelChangeCompleted s"
    by (simp add: s_def set_kernelPreference_def ClientSession_def)
  have m: "serverManager (notebookManager s) = Some sm"
    using assms(1) by (simp add: s_def set_kernelPreference_def ClientSession_def)
  have b: "fst (initialize_body conn s) = Inl (JsError ''Server did not start for unknown reason'')"
    using m assms(2-4)
    by (simp add: initialize_body_def startServerPromise_def startServer_def promise_defs
        localize_ServerNotStarted_def)
  have i: "indexOf ''Server did not start for unknown reason'' ''did not start'' > - 1"
    by simp
  from initialize_gates [OF d, of conn] b i
  show ?thesis
    unfolding s_def [symmetric]
    by (simp add: isReady_def isInErrorState_def errorMessage_def getErrorMessage_def)
qed

theorem server_did_not_start_witness:
  "isReady (snd (initialize None (example_client (example_manager False plain_startNew) None))) \<and>
   isInErrorState (snd (initialize None (example_client (example_manager False plain_startNew) None))) \<and>
   errorMessage (snd (initialize None (example_client (example_manager False plain_startNew) None))) =
     Some ''Server did not start for unknown reason''"
proof -
  have "serverManager (options_notebookManager
          \<lparr>options_path = ''notebook.ipynb'',
             options_notebookManager = example_manager False plain_startNew\<rparr>) =
        Some \<lparr>isStarted = False, startServer_outcome = None,
               startServer_isStarted = False, stopServer_outcome = None\<rparr>"
    by (simp add: example_manager_def)
  from server_did_not_start [OF this, of None None example_livyServer]
  show ?thesis by (simp add: example_client_def)
qed


subsection \<open>The claims about changeKernel\<close>

text \<open>
  When the switch routine has returned a kernel and that kernel's \<open>ready\<close> promise
  rejects, \<open>changeKernel\<close> rejects with the same error; in the state it leaves, the gate
  allocated by this call is the \<open>kernelChangeCompleted\<close> gate and has been resolved
  (by one call of \<open>resolve()\<close>), and the error message of the session is what it was.
\<close>

lemma changeKernel_rejection_resolves_gate:
  assumes "fst (doChangeKernel options (changeKernel_entry s)) = Inr (Some k)"
    and "kernel_ready k = Some err"
  shows "fst (changeKernel options s) = Inl err \<and>
         f_kernelChangeCompleted (snd (changeKernel options s)) = nextDeferred s \<and>
         deferreds (snd (changeKernel options s)) (nextDeferred s) = 1 \<and>
         isResolved (f_kernelChangeCompleted (snd (changeKernel options s)))
           (snd (changeKernel options s)) \<and>
         errorMessage (snd (changeKernel options s)) = errorMessage s"
proof -
  obtain s2 where d: "doChangeKernel options (changeKernel_entry s) = (Inr (Some k), s2)"
    using assms(1) by (cases "doChangeKernel options (changeKernel_entry s)") simp
  have "gates_kept (changeKernel_entry s) s2"
    using gates_kept_doChangeKernel [of "changeKernel_entry s" options] d by simp
  then show ?thesis
    by (simp add: changeKernel_rejected [OF d assms(2)] gates_kept_def changeKernel_entry_simps
        isResolved_def errorMessage_def)
qed

lemma changeKernel_rejection_resolves_gate_example:
  "fst (changeKernel broken_spec example_started) = Inl (JsError ''kernel died'') \<and>
   f_kernelChangeCompleted (snd (changeKernel broken_spec example_started)) = 2 \<and>
   deferreds (snd (changeKernel broken_spec example_started)) 2 = 1 \<and>
   isResolved (f_kernelChangeCompleted (snd (changeKernel broken_spec example_started)))
     (snd (changeKernel broken_spec example_started)) \<and>
   errorMessage (snd (changeKernel broken_spec example_started)) = None"
proof -
  have d: "fst (doChangeKernel broken_spec (changeKernel_entry example_started)) =
      Inr (Some (example_kernel ''broken'' False (Some (JsError ''kernel died''))))"
    by (simp add: example_started_def broken_spec_def changeKernel_entry_def method_defs
        example_defs promise_defs)
  have r: "kernel_ready (example_kernel ''broken'' False (Some (JsError ''kernel died''))) =
      Some (JsError ''kernel died'')"
    by (simp add: example_kernel_def)
  have n: "nextDeferred example_started = 2" "errorMessage example_started = None"
    by (simp_all add: example_started_def errorMessage_def method_defs example_defs promise_defs)
  from changeKernel_rejection_resolves_gate [OF d r] n
  show ?thesis by (simp add: isResolved_def)
qed

text \<open>
  C2 at a switch to a kernel that dies as it starts: the backend session returns the new
  kernel, whose \<open>ready\<close> promise rejects; the registered action, run by \<open>doChangeKernel\<close>
  before \<open>kernel.ready\<close> is awaited, makes its request to that kernel and the request
  rejects. The \<open>await\<close> of \<open>doChangeKernel\<close> is outside the \<open>try\<close>: \<open>changeKernel\<close>
  rejects and the gate it allocated is never resolved.
\<close>

theorem changeKernel_gate_left_unresolved:
  "reachable example_dying \<and>
   map_option (\<lambda>sess. changeKernel_response sess (spec_name spark_spec)) (f_session example_dying) =
     Some (Inr dead_kernel) \<and>
   kernel_ready dead_kernel = Some (JsError ''kernel died'') \<and>
   kernel (snd (changeKernel spark_spec example_dying)) = Some dead_kernel \<and>
   fst (changeKernel spark_spec example_dying) = Inl (JsError ''request failed'') \<and>
   f_kernelChangeCompleted (snd (changeKernel spark_spec example_dying)) = 2 \<and>
   nextDeferred example_dying = 2 \<and>
   \<not> isResolved (f_kernelChangeCompleted (snd (changeKernel spark_spec example_dying)))
       (snd (changeKernel spark_spec example_dying)) \<and>
   \<not> isReady (snd (changeKernel spark_spec example_dying))"
proof -
  have "reachable example_started"
    unfolding example_started_def example_client_def by (intro reachable.intros)
  moreover have "f_session example_started =
      Some ((example_session ''python3'')\<lparr>defaultKernelLoaded := Some True\<rparr>)"
    by (simp add: example_started_def method_defs example_defs promise_defs)
  ultimately have 1: "reachable example_dying"
    unfolding example_dying_def by (rule reachable.backend)
  have 2: "map_option (\<lambda>sess. changeKernel_response sess (spec_name spark_spec)) (f_session example_dying) =
      Some (Inr dead_kernel)"
    "kernel_ready dead_kernel = Some (JsError ''kernel died'')"
    "nextDeferred example_dying = 2"
    by (simp_all add: example_dying_def dead_kernel_def example_started_def method_defs
        example_defs promise_defs)
  have 3: "kernel (snd (changeKernel spark_spec example_dying)) = Some dead_kernel"
    "fst (changeKernel spark_spec example_dying) = Inl (JsError ''request failed'')"
    "f_kernelChangeCompleted (snd (changeKernel spark_spec example_dying)) = 2"
    by (simp_all add: example_dying_def dead_kernel_def spark_spec_def example_started_def
        method_defs example_defs promise_defs)
  have 4: "\<not> isResolved (f_kernelChangeCompleted (snd (changeKernel spark_spec example_dying)))
       (snd (changeKernel spark_spec example_dying))"
    "\<not> isReady (snd (changeKernel spark_spec example_dying))"
    by (simp_all add: isResolved_def isReady_def example_dying_def dead_kernel_def spark_spec_def
        example_started_def method_defs example_defs promise_defs)
  from 1 2 3 4 show ?thesis by simp
qed

text \<open>
  C5, as stated, fails: after \<open>initialize\<close> the \<open>ready\<close> gate is resolved for good, and a
  \<open>changeKernel\<close> whose new kernel does not become ready leaves \<open>isReady\<close> false.
\<close>

theorem isReady_iff_ready_resolved_counterexample:
  "reachable (snd (changeKernel broken_spec example_started)) \<and>
   \<not> (isReady (snd (changeKernel broken_spec example_started)) \<longleftrightarrow>
      isResolved (f_ready (snd (changeKernel broken_spec example_started)))
        (snd (changeKernel broken_spec example_started)))"
proof -
  have "reachable example_started"
    unfolding example_started_def example_client_def by (intro reachable.intros)
  then have 1: "reachable (snd (changeKernel broken_spec example_started))"
    by (rule reachable.kernelChanged)
  have 2: "\<not> isReady (snd (changeKernel broken_spec example_started))"
    by (simp add: isReady_def example_started_def broken_spec_def method_defs
        example_defs promise_defs)
  have 3: "isResolved (f_ready (snd (changeKernel broken_spec example_started)))
        (snd (changeKernel broken_spec example_started))"
    by (simp add: isResolved_def example_started_def broken_spec_def method_defs
        example_defs promise_defs)
  from 1 2 3 show ?thesis by simp
qed

text \<open>
  C5, amended: \<open>isReady\<close> and "the \<open>ready\<close> gate is resolved" agree in a new client
  session (both false) and after \<open>initialize\<close> (both true); \<open>updateConnection\<close> and
  \<open>shutdown\<close> change neither. \<open>changeKernel\<close> leaves the \<open>ready\<close> gate as it was, and
  leaves \<open>isReady\<close> false unless the switch routine returned a kernel, whose \<open>isReady\<close>
  flag it then takes.
\<close>

theorem isReady_and_the_ready_gate:
  assumes "reachable s"
  shows "(isReady (ClientSession livy options) =
            isResolved (f_ready (ClientSession livy options)) (ClientSession livy options)) \<and>
         isReady (snd (initialize conn s)) \<and>
         isResolved (f_ready (snd (initialize conn s))) (snd (initialize conn s)) \<and>
         isReady (snd (updateConnection c s)) = isReady s \<and>
         isResolved (f_ready (snd (updateConnection c s))) (snd (updateConnection c s)) =
           isResolved (f_ready s) s \<and>
         isReady (snd (shutdown s)) = isReady s \<and>
         isResolved (f_ready (snd (shutdown s))) (snd (shutdown s)) = isResolved (f_ready s) s \<and>
         isResolved (f_ready (snd (changeKernel spec s))) (snd (changeKernel spec s)) =
           isResolved (f_ready s) s \<and>
         isReady (snd (changeKernel spec s)) =
           (case fst (doChangeKernel spec (changeKernel_entry s)) of
              Inl e \<Rightarrow> False
            | Inr None \<Rightarrow> False
            | Inr (Some k) \<Rightarrow> kernel_isReady k)"
proof -
  from assms have g: "f_ready s < nextDeferred s" "f_ready s \<noteq> f_kernelChangeCompleted s"
    using reachable_gates by blast+
  have 1: "isReady (ClientSession livy options) =
      isResolved (f_ready (ClientSession livy options)) (ClientSession livy options)"
    by (simp add: isReady_def isResolved_def ClientSession_def)
  have 2: "isReady (snd (initialize conn s))"
    "isResolved (f_ready (snd (initialize conn s))) (snd (initialize conn s))"
    using initialize_gates [OF g(2), of conn] by (simp_all add: isReady_def isResolved_def)
  have 3: "isReady (snd (updateConnection c s)) = isReady s"
    "isResolved (f_ready (snd (updateConnection c s))) (snd (updateConnection c s)) =
       isResolved (f_ready s) s"
    using gates_kept_updateConnection [of s c]
    by (simp_all add: isReady_def isResolved_def gates_kept_def)
  have 4: "isReady (snd (shutdown s)) = isReady s"
    "isResolved (f_ready (snd (shutdown s))) (snd (shutdown s)) = isResolved (f_ready s) s"
    using gates_kept_shutdown [of s]
    by (simp_all add: isReady_def isResolved_def gates_kept_def)
  have 5: "isResolved (f_ready (snd (changeKernel spec s))) (snd (changeKernel spec s)) =
      isResolved (f_ready s) s"
    using g(1) by (simp add: isResolved_def changeKernel_gates)
  have 6: "isReady (snd (changeKernel spec s)) =
      (case fst (doChangeKernel spec (changeKernel_entry s)) of
         Inl e \<Rightarrow> False
       | Inr None \<Rightarrow> False
       | Inr (Some k) \<Rightarrow> kernel_isReady k)"
    by (simp add: isReady_def changeKernel_isReady)
  from 1 2 3 4 5 6 show ?thesis by simp
qed

theorem isReady_and_the_ready_gate_witness:
  "reachable example_started \<and>
   isReady (snd (initialize None example_started)) \<and>
   isResolved (f_ready (snd (initialize None example_started))) (snd (initialize None example_started)) \<and>
   isReady (snd (updateConnection (example_connection ''c1'') example_started)) \<and>
   isResolved (f_ready (snd (updateConnection (example_connection ''c1'') example_started)))
     (snd (updateConnection (example_connection ''c1'') example_started)) \<and>
   isReady (snd (shutdown example_started)) \<and>
   isResolved (f_ready (snd (shutdown example_started))) (snd (shutdown example_started)) \<and>
   isResolved (f_ready (snd (changeKernel broken_spec example_started)))
     (snd (changeKernel broken_spec example_started)) \<and>
   \<not> isReady (snd (changeKernel broken_spec example_started))"
proof -
  have r: "reachable example_started"
    unfolding example_started_def example_client_def by (intro reachable.intros)
  have i: "isReady example_started" "isResolved (f_ready example_started) example_started"
    by (simp_all add: isReady_def isResolved_def example_started_def method_defs
        example_defs promise_defs)
  have d: "fst (doChangeKernel broken_spec (changeKernel_entry example_started)) =
      Inr (Some (example_kernel ''broken'' False (Some (JsError ''kernel died''))))"
    by (simp add: example_started_def broken_spec_def changeKernel_entry_def method_defs
        example_defs promise_defs)
  from isReady_and_the_ready_gate [OF r, of example_livyServer
      "\<lparr>options_path = ''notebook.ipynb'', options_notebookManager = example_manager True plain_startNew\<rparr>"
      None "example_connection ''c1''" broken_spec] r i d
  show ?thesis by (simp add: example_kernel_def)
qed


subsection \<open>The claims about starting a session\<close>

lemma new_events_append [simp]: "new_events s (s'\<lparr>trace := trace s @ t\<rparr>) = t"
  by (simp add: new_events_def)

lemma initialize_fulfils: "fst (initialize conn s) = Inr ()"
  by (simp add: initialize_unfold Let_def)

text \<open>
  C3, as stated, fails for the HTTP status Not Found: when \<open>startNew\<close> rejects the kernel
  asked for with 404, no warning is given, no second \<open>startNew\<close> is made and no session is
  held; the rejection ends as the error message of \<open>initialize\<close>.
\<close>

theorem kernel_not_found_404_counterexample:
  "response_status (HttpError 404 ''Not Found'') = Some 404 \<and>
   startNew_response (sessionManager (notebookManager example_missing404))
     (startNewCalls example_missing404) (f_path example_missing404) (Some ''missingKernel'') =
     Inl (HttpError 404 ''Not Found'') \<and>
   fst (initialize None example_missing404) = Inr () \<and>
   trace (snd (initialize None example_missing404)) =
     [ServerManager_startServer,
      SessionManager_startNew ''notebook.ipynb'' (Some ''missingKernel'')] \<and>
   f_session (snd (initialize None example_missing404)) = None \<and>
   errorMessage (snd (initialize None example_missing404)) = Some ''Not Found''"
  by (simp add: errorMessage_def method_defs example_defs promise_defs)

text \<open>
  C3, amended: when \<open>startNew\<close> rejects the requested kernel with the HTTP status 501,
  with which the backend reports a kernel it does not know, the session-start routine
  warns and calls \<open>startNew\<close> again with no kernel name, and a session this second call
  returns is held with \<open>defaultKernelLoaded\<close> false. For any other rejection, the status
  404 among them, the routine rejects with the same error, having made no second call.
  And \<open>initialize\<close> never rejects.
\<close>

theorem kernel_not_found_falls_back:
  assumes "startNew_response (sessionManager (notebookManager s)) (startNewCalls s) (f_path s)
             kernelName = Inl err"
  shows "(response_status err = Some 501 \<longrightarrow>
            take 3 (new_events s (snd (startSessionInstance kernelName s))) =
              [SessionManager_startNew (f_path s) kernelName,
               Notification_warn (localize_sparkKernelRequiresConnection kernelName),
               SessionManager_startNew (f_path s) None] \<and>
            (\<forall>sess. startNew_response (sessionManager (notebookManager s))
                      (Suc (startNewCalls s)) (f_path s) None = Inr sess \<longrightarrow>
               f_session (snd (startSessionInstance kernelName s)) =
                 Some (sess\<lparr>defaultKernelLoaded := Some False\<rparr>))) \<and>
         (response_status err \<noteq> Some 501 \<longrightarrow>
            fst (startSessionInstance kernelName s) = Inl err \<and>
            new_events s (snd (startSessionInstance kernelName s)) =
              [SessionManager_startNew (f_path s) kernelName] \<and>
            f_session (snd (startSessionInstance kernelName s)) = f_session s) \<and>
         fst (initialize conn s0) = Inr ()"
proof (intro conjI impI allI)
  assume st: "response_status err = Some 501"
  show "take 3 (new_events s (snd (startSessionInstance kernelName s))) =
      [SessionManager_startNew (f_path s) kernelName,
       Notification_warn (localize_sparkKernelRequiresConnection kernelName),
       SessionManager_startNew (f_path s) None]"
  proof (cases "startNew_response (sessionManager (notebookManager s)) (Suc (startNewCalls s)) (f_path s) None")
    case (Inl err2)
    show ?thesis
      by (simp add: startSessionInstance_fallback_fails [OF assms st Inl] new_events_def)
  next
    case (Inr sess)
    define s3 where "s3 = s\<lparr>startNewCalls := Suc (Suc (startNewCalls s)),
          trace := trace s @ [SessionManager_startNew (f_path s) kernelName,
                              Notification_warn (localize_sparkKernelRequiresConnection kernelName),
                              SessionManager_startNew (f_path s) None]\<rparr>"
    obtain t where "snd (sessionStarted kernelName (sess\<lparr>defaultKernelLoaded := Some False\<rparr>) s3) =
        s3\<lparr>f_session := Some (sess\<lparr>defaultKernelLoaded := Some False\<rparr>), trace := trace s3 @ t\<rparr>"
      using sessionStarted_frame by blast
    then show ?thesis
      by (simp add: startSessionInstance_fallback [OF assms st Inr] s3_def [symmetric])
         (simp add: s3_def new_events_def)
  qed
next
  fix sess
  assume st: "response_status err = Some 501"
    and fb: "startNew_response (sessionManager (notebookManager s)) (Suc (startNewCalls s)) (f_path s) None = Inr sess"
  show "f_session (snd (startSessionInstance kernelName s)) = Some (sess\<lparr>defaultKernelLoaded := Some False\<rparr>)"
    by (simp add: startSessionInstance_fallback [OF assms st fb] sessionStarted_session)
next
  assume st: "response_status err \<noteq> Some 501"
  show "fst (startSessionInstance kernelName s) = Inl err"
    by (simp add: startSessionInstance_rethrown [OF assms st])
  show "new_events s (snd (startSessionInstance kernelName s)) = [SessionManager_startNew (f_path s) kernelName]"
    by (simp add: startSessionInstance_rethrown [OF assms st] new_events_def)
  show "f_session (snd (startSessionInstance kernelName s)) = f_session s"
    by (simp add: startSessionInstance_rethrown [OF assms st])
next
  show "fst (initialize conn s0) = Inr ()" by (rule initialize_fulfils)
qed


theorem kernel_not_found_falls_back_witness:
  "take 3 (new_events (example_missing ''missingKernel'')
      (snd (startSessionInstance (Some ''missingKernel'') (example_missing ''missingKernel'')))) =
     [SessionManager_startNew ''notebook.ipynb'' (Some ''missingKernel''),
      Notification_warn
        ''Kernel missingKernel was not found. The default kernel will be used instead.'',
      SessionManager_startNew ''notebook.ipynb'' None] \<and>
   f_session (snd (startSessionInstance (Some ''missingKernel'') (example_missing ''missingKernel''))) =
     Some ((example_session ''python3'')\<lparr>defaultKernelLoaded := Some False\<rparr>) \<and>
   fst (initialize None (example_missing ''missingKernel'')) = Inr () \<and>
   f_session (snd (initialize None (example_missing ''missingKernel''))) =
     Some ((example_session ''python3'')\<lparr>defaultKernelLoaded := Some False\<rparr>) \<and>
   errorMessage (snd (initialize None (example_missing ''missingKernel''))) = None \<and>
   fst (startSessionInstance (Some ''missingKernel'')
      (example_client (example_manager True (failing_startNew 404)) None)) =
     Inl (HttpError 404 ''Request failed'')"
proof -
  define s where "s = example_missing ''missingKernel''"
  have 1: "startNew_response (sessionManager (notebookManager s)) (startNewCalls s) (f_path s)
      (Some ''missingKernel'') = Inl (HttpError 501 ''Kernel not found'')"
    by (simp add: s_def example_defs)
  have 2: "startNew_response (sessionManager (notebookManager s)) (Suc (startNewCalls s)) (f_path s)
      None = Inr (example_session ''python3'')"
    by (simp add: s_def example_defs)
  have 3: "f_path s = ''notebook.ipynb''"
    by (simp add: s_def example_defs)
  have 4: "f_session (snd (initialize None s)) =
      Some ((example_session ''python3'')\<lparr>defaultKernelLoaded := Some False\<rparr>)"
    "errorMessage (snd (initialize None s)) = None"
    by (simp_all add: s_def errorMessage_def method_defs example_defs promise_defs)
  define s' where "s' = example_client (example_manager True (failing_startNew 404)) None"
  have 5: "startNew_response (sessionManager (notebookManager s')) (startNewCalls s') (f_path s')
      (Some ''missingKernel'') = Inl (HttpError 404 ''Request failed'')"
    by (simp add: s'_def example_defs)
  from kernel_not_found_falls_back [OF 1, of None s] kernel_not_found_falls_back [OF 5, of None s']
    2 3 4
  show ?thesis
    unfolding s_def [symmetric] s'_def [symmetric]
    by simp
qed


subsection \<open>The order of the kernel-config actions\<close>


subsection \<open>Where the loop over the actions stops\<close>

















subsection \<open>The registered action\<close>

lemma indexOf_ge: "- 1 \<le> indexOf s sub"
  by (induction s) (simp_all add: Let_def)

text \<open>\<open>indexOf\<close> finds \<open>sub\<close> exactly when \<open>sub\<close> occurs in the string.\<close>

lemma indexOf_found_iff: "- 1 < indexOf s sub \<longleftrightarrow> (\<exists>ps ss. s = ps @ sub @ ss)"
proof (induction s)
  case Nil
  show ?case by auto
next
  case (Cons c cs)
  show ?case
  proof (cases "take (length sub) (c # cs) = sub")
    case True
    then have "c # cs = [] @ sub @ drop (length sub) (c # cs)"
      by (metis append_Nil append_take_drop_id)
    then have "\<exists>ps ss. c # cs = ps @ sub @ ss" by blast
    with True show ?thesis by simp
  next
    case False
    have "(\<exists>ps ss. c # cs = ps @ sub @ ss) \<longleftrightarrow> (\<exists>ps ss. cs = ps @ sub @ ss)"
    proof
      assume "\<exists>ps ss. c # cs = ps @ sub @ ss"
      then obtain ps ss where e: "c # cs = ps @ sub @ ss" by blast
      show "\<exists>ps ss. cs = ps @ sub @ ss"
      proof (cases ps)
        case Nil
        with e have "take (length sub) (c # cs) = sub" by simp
        with False show ?thesis by simp
      next
        case (Cons p ps')
        with e have "cs = ps' @ sub @ ss" by simp
        then show ?thesis by blast
      qed
    next
      assume "\<exists>ps ss. cs = ps @ sub @ ss"
      then obtain ps ss where "cs = ps @ sub @ ss" by blast
      then have "c # cs = (c # ps) @ sub @ ss" by simp
      then show "\<exists>ps ss. c # cs = ps @ sub @ ss" by blast
    qed
    with False Cons.IH indexOf_ge [of cs sub] show ?thesis
      by (auto simp: Let_def)
  qed
qed

text \<open>
  A kernel name is a Spark kernel's when some part of it reads \<open>spark\<close> once capitals
  are made small.
\<close>

lemma isSparkKernel_iff:
  "isSparkKernel kernelName \<longleftrightarrow>
     (\<exists>n ps ss. kernelName = Some n \<and> toLowerCase n = ps @ ''spark'' @ ss)"
proof (cases kernelName)
  case None
  then show ?thesis by simp
next
  case (Some n)
  have "toLowerCase n = ps @ ''spark'' @ ss \<Longrightarrow> n \<noteq> []" for ps ss
    by (auto simp: toLowerCase_def)
  with Some show ?thesis
    by (auto simp: indexOf_found_iff)
qed

text \<open>
  With a session that has a kernel, a connection and a Spark kernel name, the action
  makes one silent request with the command built from the connection, and settles as
  the request's \<open>done\<close> promise does. Without a session, a connection or a Spark kernel
  name it does nothing.
\<close>

lemma runTasksBeforeSessionStart_request:
  assumes "f_session s = Some sess" and "session_kernel sess = Some k"
    and "f_connection s = Some conn" and "isSparkKernel kernelName"
  shows "runTasksBeforeSessionStart kernelName s =
     (case requestExecute_done k
             (''%_do_not_call_change_endpoint --username='' @ user conn @
              '' --password='' @ password conn @
              '' --server='' @ livyServer s (host conn) (knoxport conn) @
              '' --auth=Basic_Access'') True of
        None \<Rightarrow> Inr ()
      | Some err \<Rightarrow> Inl err,
      s\<lparr>trace := trace s @
         [Kernel_requestExecute
            (''%_do_not_call_change_endpoint --username='' @ user conn @
             '' --password='' @ password conn @
             '' --server='' @ livyServer s (host conn) (knoxport conn) @
             '' --auth=Basic_Access'') True]\<rparr>)"
  using assms
  by (simp add: runTasksBeforeSessionStart_def doNotCallChangeEndpointParams_def Let_def
      andThen_def emit_def await_cases split: option.splits)

lemma runTasksBeforeSessionStart_skipped:
  assumes "f_session s = None \<or> f_connection s = None \<or> \<not> isSparkKernel kernelName"
  shows "runTasksBeforeSessionStart kernelName s = (Inr (), s)"
  using assms by (auto simp: runTasksBeforeSessionStart_def resolved_def)

text \<open>
  The scenario of the spec: \<open>changeKernel\<close> to \<open>spark3kernel\<close> on a started session with
  the connection of host \<open>h\<close>, user \<open>u\<close> and password \<open>p\<close> makes exactly one request.
\<close>

lemma changeKernel_to_spark_requests_once:
  "filter is_request (new_events example_started (snd (changeKernel spark_spec example_started))) =
     [Kernel_requestExecute
        ''%_do_not_call_change_endpoint --username=u --password=p --server=https://h:8443/gateway/default/livy/v1/ --auth=Basic_Access''
        True]"
  by (simp add: new_events_def example_started_def spark_spec_def method_defs
      example_defs promise_defs)

text \<open>
  C4 at a session start that falls back: the kernel \<open>pyspark3kernel\<close> is asked for, the
  backend does not know it and starts \<open>python3\<close>. \<open>startSessionInstance\<close> hands the name
  asked for to the actions, not the name of the kernel that runs: the active kernel is
  no Spark kernel, and the Spark command is sent to it all the same.
\<close>

theorem spark_command_sent_to_fallback_kernel:
  "map_option kernel_name
     (kernel (snd (initialize (Some (example_connection ''c0'')) (example_missing ''pyspark3kernel'')))) =
     Some ''python3'' \<and>
   \<not> isSparkKernel (Some ''python3'') \<and>
   filter is_request
     (trace (snd (initialize (Some (example_connection ''c0'')) (example_missing ''pyspark3kernel'')))) =
     [Kernel_requestExecute
        ''%_do_not_call_change_endpoint --username=u --password=p --server=https://h:8443/gateway/default/livy/v1/ --auth=Basic_Access''
        True]"
  by (simp add: method_defs example_defs promise_defs)

end
